theory Spec2Isabelle
  imports Complex_Main "HOL-Library.Sublist"
begin

section \<open>JavaScript strings and errors\<close>

text \<open>
  A JavaScript string is a sequence of UTF-16 code units. The model writes it as a
  \<^typ>\<open>string\<close>, one \<^typ>\<open>char\<close> for one code unit, so lengths and positions count what
  the program counts. Code units from 256 on have no counterpart in \<^typ>\<open>char\<close>: the
  white space beyond Latin-1 is absent from \<open>isWhiteSpace\<close>, and the one literal of
  the program outside that range, the em dash, is given a name of its own below.

  A thrown value is an \<open>Error\<close>, a \<open>TypeError\<close> or a \<open>SyntaxError\<close> with its message.
\<close>

datatype js_error = Error string | TypeError string | SyntaxError string

fun message :: "js_error \<Rightarrow> string" where
  "message (Error m) = m"
| "message (TypeError m) = m"
| "message (SyntaxError m) = m"

text \<open>
  White space as \<open>String.prototype.trim\<close> and the class \<open>\s\<close> of a regular expression
  see it: tab, line feed, vertical tab, form feed, carriage return, space and the
  no-break space.
\<close>

definition isWhiteSpace :: "char \<Rightarrow> bool" where
  "isWhiteSpace c = (c \<in> set [CHR 0x09, CHR 0x0A, CHR 0x0B, CHR 0x0C, CHR 0x0D, CHR 0x20, CHR 0xA0])"

definition trimStart :: "string \<Rightarrow> string" where
  "trimStart s = dropWhile isWhiteSpace s"

definition trimEnd :: "string \<Rightarrow> string" where
  "trimEnd s = rev (dropWhile isWhiteSpace (rev s))"

definition trim :: "string \<Rightarrow> string" where
  "trim s = trimEnd (trimStart s)"

definition startsWith :: "string \<Rightarrow> string \<Rightarrow> bool" where
  "startsWith s p = (take (length p) s = p)"

definition endsWith :: "string \<Rightarrow> string \<Rightarrow> bool" where
  "endsWith s p = (length p \<le> length s \<and> drop (length s - length p) s = p)"

definition slice_3_m3 :: "string \<Rightarrow> string" where
  "slice_3_m3 s = drop 3 (take (length s - 3) s)"

text \<open>
  \<open>toLowerCase\<close> and \<open>toUpperCase\<close> on Latin-1. Lowering is exact there. Raising maps the
  sharp s to \<open>SS\<close>; the micro sign and the y with diaeresis have their capitals beyond
  code unit 255 and are left as they are.
\<close>

definition asciiUpper :: string where "asciiUpper = ''ABCDEFGHIJKLMNOPQRSTUVWXYZ''"
definition asciiLower :: string where "asciiLower = ''abcdefghijklmnopqrstuvwxyz''"

definition latinUpper :: string where
  "latinUpper = [CHR 0xC0, CHR 0xC1, CHR 0xC2, CHR 0xC3, CHR 0xC4, CHR 0xC5, CHR 0xC6, CHR 0xC7,
     CHR 0xC8, CHR 0xC9, CHR 0xCA, CHR 0xCB, CHR 0xCC, CHR 0xCD, CHR 0xCE, CHR 0xCF,
     CHR 0xD0, CHR 0xD1, CHR 0xD2, CHR 0xD3, CHR 0xD4, CHR 0xD5, CHR 0xD6,
     CHR 0xD8, CHR 0xD9, CHR 0xDA, CHR 0xDB, CHR 0xDC, CHR 0xDD, CHR 0xDE]"

definition latinLower :: string where
  "latinLower = [CHR 0xE0, CHR 0xE1, CHR 0xE2, CHR 0xE3, CHR 0xE4, CHR 0xE5, CHR 0xE6, CHR 0xE7,
     CHR 0xE8, CHR 0xE9, CHR 0xEA, CHR 0xEB, CHR 0xEC, CHR 0xED, CHR 0xEE, CHR 0xEF,
     CHR 0xF0, CHR 0xF1, CHR 0xF2, CHR 0xF3, CHR 0xF4, CHR 0xF5, CHR 0xF6,
     CHR 0xF8, CHR 0xF9, CHR 0xFA, CHR 0xFB, CHR 0xFC, CHR 0xFD, CHR 0xFE]"

definition lowerChar :: "char \<Rightarrow> char" where
  "lowerChar c =
     (case map_of (zip (asciiUpper @ latinUpper) (asciiLower @ latinLower)) c of
        Some l \<Rightarrow> l | None \<Rightarrow> c)"

definition toLowerCase :: "string \<Rightarrow> string" where
  "toLowerCase s = map lowerChar s"

definition upperChar :: "char \<Rightarrow> string" where
  "upperChar c =
     (if c = CHR 0xDF then ''SS''
      else case map_of (zip (asciiLower @ latinLower) (asciiUpper @ latinUpper)) c of
        Some u \<Rightarrow> [u] | None \<Rightarrow> [c])"

definition toUpperCase :: "string \<Rightarrow> string" where
  "toUpperCase s = concat (map upperChar s)"

section \<open>\<open>JSON.parse\<close>\<close>

text \<open>
  The values \<open>JSON.parse\<close> produces. A number written as an integer of magnitude up to
  \<open>2^53\<close> is that integer exactly (\<open>JNum\<close>); any other number is kept as its lexeme
  (\<open>JDouble\<close>), since its value is a double. An object keeps its members in the order of
  the text; where a name is repeated the last member is the property.
\<close>

datatype json =
    JNull | JBool bool | JNum int | JDouble string | JStr string
  | JArr "json list" | JObj "(string \<times> json) list"

text \<open>
  The grammar is that of ECMA-404, read in two passes. The first pass is a scanner that
  takes one code unit at a time: \<open>step\<close> is its transition, \<open>finish\<close> what it accepts at
  the end of the text. Names (\<open>true\<close>, \<open>false\<close>, \<open>null\<close>) and numbers are read to their
  longest extent; the code unit after them is then scanned from the start state. JSON's
  own white space is narrower than JavaScript's: space, tab, line feed, carriage
  return. An escape \<open>\uXXXX\<close> is one code unit of the string; \<open>codeUnit\<close> keeps its low
  eight bits, which is the code unit itself below 256.
\<close>

datatype token = TLBrace | TRBrace | TLBrack | TRBrack | TColon | TComma | TStr string | TLit json

datatype num_state = NMinus | NZero | NInt | NDot | NFrac | NE | NESign | NExp

datatype lex_state =
    LStart
  | LStr string
  | LEsc string
  | LUni string "nat list"
  | LWord string
  | LNum num_state string

definition isDigit :: "char \<Rightarrow> bool" where
  "isDigit c = (c \<in> set ''0123456789'')"

definition isLetter :: "char \<Rightarrow> bool" where
  "isLetter c = (c \<in> set ''abcdefghijklmnopqrstuvwxyz'')"

definition digitVal :: "char \<Rightarrow> nat" where
  "digitVal c = (of_char c - 48)"

definition hexVal :: "char \<Rightarrow> nat option" where
  "hexVal c =
     (if isDigit c then Some (of_char c - 48)
      else if c \<in> set ''abcdef'' then Some (of_char c - 87)
      else if c \<in> set ''ABCDEF'' then Some (of_char c - 55)
      else None)"

definition codeUnit :: "nat \<Rightarrow> char" where
  "codeUnit n =
     Char (odd n) (odd (n div 2)) (odd (n div 4)) (odd (n div 8))
          (odd (n div 16)) (odd (n div 32)) (odd (n div 64)) (odd (n div 128))"

fun numStep :: "num_state \<Rightarrow> char \<Rightarrow> num_state option" where
  "numStep NMinus c = (if c = CHR ''0'' then Some NZero else if isDigit c then Some NInt else None)"
| "numStep NZero c =
     (if c = CHR ''.'' then Some NDot else if c = CHR ''e'' \<or> c = CHR ''E'' then Some NE else None)"
| "numStep NInt c =
     (if isDigit c then Some NInt else if c = CHR ''.'' then Some NDot
      else if c = CHR ''e'' \<or> c = CHR ''E'' then Some NE else None)"
| "numStep NDot c = (if isDigit c then Some NFrac else None)"
| "numStep NFrac c =
     (if isDigit c then Some NFrac else if c = CHR ''e'' \<or> c = CHR ''E'' then Some NE else None)"
| "numStep NE c =
     (if c = CHR ''+'' \<or> c = CHR ''-'' then Some NESign else if isDigit c then Some NExp else None)"
| "numStep NESign c = (if isDigit c then Some NExp else None)"
| "numStep NExp c = (if isDigit c then Some NExp else None)"

definition digitsToNat :: "string \<Rightarrow> nat" where
  "digitsToNat ds = foldl (\<lambda>a c. 10 * a + digitVal c) 0 ds"

definition maxSafeInteger :: int where
  "maxSafeInteger = 9007199254740992"

definition intLexeme :: "string \<Rightarrow> int" where
  "intLexeme lx =
     (case lx of
        c # ds \<Rightarrow> if c = CHR ''-'' then - int (digitsToNat ds) else int (digitsToNat lx)
      | [] \<Rightarrow> 0)"

definition numToken :: "num_state \<Rightarrow> string \<Rightarrow> token option" where
  "numToken ns lx =
     (if ns = NZero \<or> ns = NInt
      then (if \<bar>intLexeme lx\<bar> \<le> maxSafeInteger then Some (TLit (JNum (intLexeme lx)))
            else Some (TLit (JDouble lx)))
      else if ns = NFrac \<or> ns = NExp then Some (TLit (JDouble lx))
      else None)"

definition literalName :: "string \<Rightarrow> token option" where
  "literalName w =
     (if w = ''true'' then Some (TLit (JBool True))
      else if w = ''false'' then Some (TLit (JBool False))
      else if w = ''null'' then Some (TLit JNull)
      else None)"

definition start :: "char \<Rightarrow> (token list \<times> lex_state) option" where
  "start c =
     (if c \<in> set [CHR 0x20, CHR 0x09, CHR 0x0A, CHR 0x0D] then Some ([], LStart)
      else if c = CHR ''{'' then Some ([TLBrace], LStart)
      else if c = CHR ''}'' then Some ([TRBrace], LStart)
      else if c = CHR ''['' then Some ([TLBrack], LStart)
      else if c = CHR '']'' then Some ([TRBrack], LStart)
      else if c = CHR '':'' then Some ([TColon], LStart)
      else if c = CHR '','' then Some ([TComma], LStart)
      else if c = CHR 0x22 then Some ([], LStr [])
      else if c = CHR ''-'' then Some ([], LNum NMinus [c])
      else if c = CHR ''0'' then Some ([], LNum NZero [c])
      else if isDigit c then Some ([], LNum NInt [c])
      else if isLetter c then Some ([], LWord [c])
      else None)"

definition escape :: "char \<Rightarrow> char option" where
  "escape c =
     (if c = CHR 0x22 \<or> c = CHR 0x5C \<or> c = CHR ''/'' then Some c
      else if c = CHR ''b'' then Some (CHR 0x08)
      else if c = CHR ''f'' then Some (CHR 0x0C)
      else if c = CHR ''n'' then Some (CHR 0x0A)
      else if c = CHR ''r'' then Some (CHR 0x0D)
      else if c = CHR ''t'' then Some (CHR 0x09)
      else None)"

definition after :: "token option \<Rightarrow> char \<Rightarrow> (token list \<times> lex_state) option" where
  "after t c =
     (case t of
        None \<Rightarrow> None
      | Some tok \<Rightarrow> (case start c of None \<Rightarrow> None | Some (ts, st) \<Rightarrow> Some (tok # ts, st)))"

fun step :: "lex_state \<Rightarrow> char \<Rightarrow> (token list \<times> lex_state) option" where
  "step LStart c = start c"
| "step (LStr acc) c =
     (if c = CHR 0x22 then Some ([TStr (rev acc)], LStart)
      else if c = CHR 0x5C then Some ([], LEsc acc)
      else if (of_char c :: nat) < 32 then None
      else Some ([], LStr (c # acc)))"
| "step (LEsc acc) c =
     (if c = CHR ''u'' then Some ([], LUni acc [])
      else (case escape c of None \<Rightarrow> None | Some e \<Rightarrow> Some ([], LStr (e # acc))))"
| "step (LUni acc hs) c =
     (case hexVal c of
        None \<Rightarrow> None
      | Some h \<Rightarrow>
          if length hs < 3 then Some ([], LUni acc (hs @ [h]))
          else Some ([], LStr (codeUnit (foldl (\<lambda>a d. 16 * a + d) 0 (hs @ [h])) # acc)))"
| "step (LWord w) c =
     (if isLetter c then Some ([], LWord (c # w)) else after (literalName (rev w)) c)"
| "step (LNum ns lx) c =
     (case numStep ns c of
        Some ns' \<Rightarrow> Some ([], LNum ns' (c # lx))
      | None \<Rightarrow> after (numToken ns (rev lx)) c)"

fun finish :: "lex_state \<Rightarrow> token list option" where
  "finish LStart = Some []"
| "finish (LWord w) = map_option (\<lambda>t. [t]) (literalName (rev w))"
| "finish (LNum ns lx) = map_option (\<lambda>t. [t]) (numToken ns (rev lx))"
| "finish _ = None"

fun lex :: "lex_state \<Rightarrow> string \<Rightarrow> token list option" where
  "lex st [] = finish st"
| "lex st (c # cs) =
     (case step st c of
        None \<Rightarrow> None
      | Some (ts, st') \<Rightarrow> map_option ((@) ts) (lex st' cs))"

text \<open>
  The second pass runs a stack machine over the tokens: one \<open>frame\<close> for each array or
  object that is still open, and a \<open>mode\<close> that says what may come next.
\<close>

datatype frame = FArr "json list" | FObj "(string \<times> json) list" "string option"

datatype mode = ExpectValue | ExpectValueOrClose | ExpectKeyOrClose | ExpectKey | ExpectColon
  | AfterValue | Done json

fun gotValue :: "json \<Rightarrow> frame list \<Rightarrow> (frame list \<times> mode) option" where
  "gotValue v [] = Some ([], Done v)"
| "gotValue v (FArr xs # fs) = Some (FArr (v # xs) # fs, AfterValue)"
| "gotValue v (FObj kvs (Some k) # fs) = Some (FObj ((k, v) # kvs) None # fs, AfterValue)"
| "gotValue v (FObj kvs None # fs) = None"

fun pstep :: "frame list \<times> mode \<Rightarrow> token \<Rightarrow> (frame list \<times> mode) option" where
  "pstep (fs, Done v) t = None"
| "pstep (fs, ExpectColon) t = (if t = TColon then Some (fs, ExpectValue) else None)"
| "pstep (FObj kvs None # fs, ExpectKey) (TStr k) = Some (FObj kvs (Some k) # fs, ExpectColon)"
| "pstep (fs, ExpectKey) t = None"
| "pstep (FObj kvs None # fs, ExpectKeyOrClose) (TStr k) = Some (FObj kvs (Some k) # fs, ExpectColon)"
| "pstep (FObj kvs None # fs, ExpectKeyOrClose) TRBrace = gotValue (JObj (rev kvs)) fs"
| "pstep (fs, ExpectKeyOrClose) t = None"
| "pstep (FArr xs # fs, AfterValue) TComma = Some (FArr xs # fs, ExpectValue)"
| "pstep (FArr xs # fs, AfterValue) TRBrack = gotValue (JArr (rev xs)) fs"
| "pstep (FObj kvs None # fs, AfterValue) TComma = Some (FObj kvs None # fs, ExpectKey)"
| "pstep (FObj kvs None # fs, AfterValue) TRBrace = gotValue (JObj (rev kvs)) fs"
| "pstep (fs, AfterValue) t = None"
| "pstep (FArr xs # fs, ExpectValueOrClose) TRBrack = gotValue (JArr (rev xs)) fs"
| "pstep (fs, m) (TStr s) = gotValue (JStr s) fs"
| "pstep (fs, m) (TLit v) = gotValue v fs"
| "pstep (fs, m) TLBrack = Some (FArr [] # fs, ExpectValueOrClose)"
| "pstep (fs, m) TLBrace = Some (FObj [] None # fs, ExpectKeyOrClose)"
| "pstep (fs, m) t = None"

fun parse :: "frame list \<times> mode \<Rightarrow> token list \<Rightarrow> json option" where
  "parse (fs, Done v) [] = Some v"
| "parse (fs, m) [] = None"
| "parse st (t # ts) = (case pstep st t of None \<Rightarrow> None | Some st' \<Rightarrow> parse st' ts)"

definition JSON_parse :: "string \<Rightarrow> json option" where
  "JSON_parse s = (case lex LStart s of None \<Rightarrow> None | Some ts \<Rightarrow> parse ([], ExpectValue) ts)"

section \<open>What the program calls outside itself\<close>

text \<open>
  The capture libraries, the displays, the provider's endpoint and the clock are not
  part of the program. One \<open>env\<close> fixes what each of them answers during a call:
  the scale factors of the displays (\<open>screen.getAllDisplays()\<close>, a factor of \<open>0\<close> standing
  for a missing one), the full-screen image or the error of \<open>screenshot\<close>, the cropped
  image in base64 or the error of the \<open>sharp\<close> pipeline, the text or the error of
  \<open>model.invoke\<close>, and the formatted time of day. Numbers are doubles in the program
  and rationals here, each double being the rational it denotes; the product of two
  doubles is rounded by the engine, so \<open>times\<close> is the engine's product.
\<close>

record crop_area =
  crop_left :: int
  crop_top :: int
  crop_width :: int
  crop_height :: int

text \<open>
  The model object built by \<open>setupProvider\<close>: the class, then the key and the model name
  it is constructed with, and the base URL for the OpenAI-compatible endpoint.
  Temperature 0.1 and \<open>maxTokens\<close> 400 are the same in all three and are left out.
\<close>

datatype chat_model =
    ChatOpenAI string string "string option"
  | ChatAnthropic string string

text \<open>
  The message handed to the model: the fixed analysis prompt with the image as a data
  URL, or the prompt with the note that no image is available.
\<close>

datatype human_message = ImageMessage string | TextMessage

record env =
  displays :: "rat list"
  times :: "rat \<Rightarrow> rat \<Rightarrow> rat"
  screenshot :: "js_error + string"
  sharp :: "string \<Rightarrow> crop_area \<Rightarrow> js_error + string"
  invoke :: "chat_model \<Rightarrow> human_message \<Rightarrow> js_error + string"
  timeString :: string

text \<open>
  What a call does that can be observed from outside: a message to the renderer on the
  channel \<open>status-update\<close> or \<open>analysis-result\<close>, a read of the screen, a request to the
  provider.
\<close>

datatype event =
    StatusUpdate string
  | AnalysisResult string string
  | ScreenRead
  | ModelInvoked human_message

section \<open>The provider service (class LLMService)\<close>

text \<open>
  The three configured keys (\<open>config.apiKeys\<close> in the main process, \<open>this.apiKeys\<close> in
  the service). Every value stored there is a string: the empty string is the unset key.
\<close>

record api_keys =
  openai :: string
  claude :: string
  perplexity :: string

text \<open>
  What the specification calls a credential present for a provider id: the configuration
  maps provider ids to secrets, and the id has a secret that is not empty. This is the
  specification's notion, written without looking at how the program tests it; the
  three ids are the only ones the mapping has.
\<close>

definition credentialPresent :: "api_keys \<Rightarrow> string \<Rightarrow> bool" where
  "credentialPresent ks p =
     ((p = ''openai'' \<and> openai ks \<noteq> [])
      \<or> (p = ''claude'' \<and> claude ks \<noteq> [])
      \<or> (p = ''perplexity'' \<and> perplexity ks \<noteq> []))"

record llm_service =
  currentProvider :: string
  model :: "chat_model option"
  svcKeys :: api_keys

definition setupProvider :: "llm_service \<Rightarrow> js_error + llm_service" where
  "setupProvider svc =
     (let p = toLowerCase (currentProvider svc); ks = svcKeys svc in
      if p = ''openai'' then
        (if openai ks = [] then Inl (Error ''OpenAI API key not configured'')
         else Inr (svc\<lparr>model := Some (ChatOpenAI (openai ks) ''gpt-5-chat-latest'' None)\<rparr>))
      else if p = ''claude'' then
        (if claude ks = [] then Inl (Error ''Claude API key not configured'')
         else Inr (svc\<lparr>model := Some (ChatAnthropic (claude ks) ''claude-3-5-sonnet-20241022'')\<rparr>))
      else if p = ''perplexity'' then
        (if perplexity ks = [] then Inl (Error ''Perplexity API key not configured'')
         else Inr (svc\<lparr>model := Some (ChatOpenAI (perplexity ks) ''sonar-pro''
                                        (Some ''https://api.perplexity.ai''))\<rparr>))
      else Inl (Error (''Unsupported LLM provider: '' @ currentProvider svc)))"


definition switchProvider :: "string \<Rightarrow> llm_service \<Rightarrow> js_error option \<times> llm_service" where
  "switchProvider p svc =
     (if p \<noteq> currentProvider svc
      then (let svc1 = svc\<lparr>currentProvider := p\<rparr>
            in case setupProvider svc1 of
                 Inl e \<Rightarrow> (Some e, svc1)
               | Inr svc2 \<Rightarrow> (None, svc2))
      else (None, svc))"

subsection \<open>\<open>extractJsonFromResponse\<close>\<close>

text \<open>
  The match of \<open>/```json\s*([\s\S]*?)\s*```/\<close>, as the backtracking matcher finds it; the
  result is the text of group 1.
  \<^item> \<open>fenceAhead\<close>: \<open>\s*```\<close> matches at the head of the text.
  \<^item> \<open>lazyGroup\<close>: the group takes as few code units as it can, one more each time the
    rest of the pattern fails.
  \<^item> \<open>afterTag\<close>: the greedy \<open>\s*\<close> after the tag takes all the white space it finds and
    gives it back one code unit at a time while the rest fails.
  \<^item> \<open>matchJsonBlock\<close>: the match is tried at each position from the left.
\<close>

definition fence :: string where "fence = ''```''"
definition jsonTag :: string where "jsonTag = ''```json''"

fun fenceAhead :: "string \<Rightarrow> bool" where
  "fenceAhead [] = False"
| "fenceAhead (c # cs) = (if isWhiteSpace c then fenceAhead cs else startsWith (c # cs) fence)"

fun lazyGroup :: "string \<Rightarrow> string option" where
  "lazyGroup [] = None"
| "lazyGroup (c # cs) =
     (if fenceAhead (c # cs) then Some [] else map_option ((#) c) (lazyGroup cs))"

fun afterTag :: "string \<Rightarrow> string option" where
  "afterTag [] = None"
| "afterTag (c # cs) =
     (if isWhiteSpace c
      then (case afterTag cs of Some g \<Rightarrow> Some g | None \<Rightarrow> lazyGroup (c # cs))
      else lazyGroup (c # cs))"

fun matchJsonBlock :: "string \<Rightarrow> string option" where
  "matchJsonBlock [] = None"
| "matchJsonBlock (c # cs) =
     (if startsWith (c # cs) jsonTag
      then (case afterTag (drop (length jsonTag) (c # cs)) of
              Some g \<Rightarrow> Some g
            | None \<Rightarrow> matchJsonBlock cs)
      else matchJsonBlock cs)"

text \<open>
  The text the function returns when the cleaned text does not parse: the
  \<open>JSON.stringify\<close> of the fallback object. \<open>cleanResponse\<close> is the value of \<open>cleaned\<close>
  when the function reaches \<open>JSON.parse\<close>; \<open>slice_3_m3\<close> is \<open>slice(3, -3)\<close>.
\<close>

definition fallbackResponse :: string where
  \<open>fallbackResponse = ''{"decision":"Wait","confidence":50,"reason":"JSON parsing error","scenarios":[],"levels":{"support":[],"resistance":[]}}''\<close>

definition cleanResponse :: "string \<Rightarrow> string" where
  "cleanResponse content =
     (let cleaned = trim content in
      case matchJsonBlock cleaned of
        Some g \<Rightarrow> trim g
      | None \<Rightarrow>
          if startsWith cleaned fence \<and> endsWith cleaned fence
          then trim (slice_3_m3 cleaned)
          else cleaned)"

definition extractJsonFromResponse :: "string \<Rightarrow> string" where
  "extractJsonFromResponse content =
     (if content = [] then ''{}''
      else
        let cleaned = cleanResponse content in
        case JSON_parse cleaned of Some v \<Rightarrow> cleaned | None \<Rightarrow> fallbackResponse)"

subsection \<open>\<open>analyzeChart\<close>\<close>

definition textOnlyResponse :: string where
  \<open>textOnlyResponse = ''{"decision":"Wait","confidence":50,"reason":"Text-only analysis - image vision not supported","scenarios":[],"levels":{"support":[],"resistance":[]}}''\<close>

text \<open>
  The result is the string returned or the error thrown, with the requests made on the
  way. An error of the provider is thrown again with the provider's name in front.
\<close>

definition analyzeChart :: "env \<Rightarrow> llm_service \<Rightarrow> string \<Rightarrow> (js_error + string) \<times> event list" where
  "analyzeChart w svc imageBase64 =
     (case model svc of
        None \<Rightarrow> (Inl (Error ''LLM service not initialized''), [])
      | Some m \<Rightarrow>
          if currentProvider svc = ''openai'' \<or> currentProvider svc = ''claude''
          then (case invoke w m (ImageMessage imageBase64) of
                  Inl e \<Rightarrow>
                    (Inl (Error (''Analysis failed with '' @ currentProvider svc @ '': '' @ message e)),
                     [ModelInvoked (ImageMessage imageBase64)])
                | Inr content \<Rightarrow>
                    (Inr (extractJsonFromResponse content), [ModelInvoked (ImageMessage imageBase64)]))
          else (case invoke w m TextMessage of
                  Inl e \<Rightarrow>
                    (Inl (Error (''Analysis failed with '' @ currentProvider svc @ '': '' @ message e)),
                     [ModelInvoked TextMessage])
                | Inr content \<Rightarrow> (Inr textOnlyResponse, [ModelInvoked TextMessage])))"


section \<open>The main process (class SnapScalpMain)\<close>

record region =
  area_x :: rat
  area_y :: rat
  area_width :: rat
  area_height :: rat

record app_config =
  provider :: string
  apiKeys :: api_keys

text \<open>
  \<open>apiKeys[provider]\<close> with a computed name: an own property is one of the three strings,
  a name of \<open>Object.prototype\<close> is found on the prototype chain (a function or an object),
  every other name is \<open>undefined\<close>. The program only tests the value for truth.
\<close>

datatype js_prop = Undefined | Str string | Inherited

definition objectPrototypeNames :: "string list" where
  "objectPrototypeNames =
     [''constructor'', ''__defineGetter__'', ''__defineSetter__'', ''hasOwnProperty'',
      ''__lookupGetter__'', ''__lookupSetter__'', ''isPrototypeOf'', ''propertyIsEnumerable'',
      ''toString'', ''valueOf'', ''__proto__'', ''toLocaleString'']"

definition lookupKey :: "api_keys \<Rightarrow> string \<Rightarrow> js_prop" where
  "lookupKey ks p =
     (if p = ''openai'' then Str (openai ks)
      else if p = ''claude'' then Str (claude ks)
      else if p = ''perplexity'' then Str (perplexity ks)
      else if p \<in> set objectPrototypeNames then Inherited
      else Undefined)"

fun truthy :: "js_prop \<Rightarrow> bool" where
  "truthy Undefined = False"
| "truthy (Str s) = (s \<noteq> [])"
| "truthy Inherited = True"

text \<open>
  The two callbacks \<open>startAnalysis\<close> hands to the event loop: the probe given to
  \<open>setTimeout\<close> and the recurring cycle given to \<open>setInterval\<close>, each with its delay in
  milliseconds. The event loop's table of pending timers is part of the state, since
  \<open>startAnalysis\<close> and \<open>stopAnalysis\<close> change it. \<open>mainWindow\<close> says whether the window
  exists, which is all that \<open>mainWindow?.webContents.send\<close> asks.
\<close>

datatype timer = Probe nat | Recurring nat

record main_state =
  mainWindow :: bool
  captureArea :: "region option"
  isAnalyzing :: bool
  analysisInterval :: "nat option"
  llmService :: llm_service
  config :: app_config
  timers :: "(nat \<times> timer) list"
  nextTimerId :: nat

datatype ok = Success

text \<open>
  \<open>startAnalysis\<close>: the two checks in the order of the source, then the flag, the probe
  after 2000 ms and the recurring cycle every 30000 ms, whose handle is kept in
  \<open>analysisInterval\<close>. The result is the thrown error or \<open>{success: true}\<close>, with the state
  after the call.
\<close>

definition startAnalysis :: "main_state \<Rightarrow> (js_error + ok) \<times> main_state" where
  "startAnalysis s =
     (if \<not> truthy (lookupKey (apiKeys (config s)) (provider (config s)))
      then (Inl (Error (''Missing API key for '' @ provider (config s))), s)
      else if captureArea s = None
      then (Inl (Error ''No capture area set''), s)
      else
        let p = nextTimerId s; i = p + 1 in
        (Inr Success,
         s\<lparr>isAnalyzing := True,
           timers := timers s @ [(p, Probe 2000), (i, Recurring 30000)],
           analysisInterval := Some i,
           nextTimerId := i + 1\<rparr>))"

text \<open>\<open>stopAnalysis\<close>: clears the flag and the recurring timer; the probe is not cancelled.\<close>

definition stopAnalysis :: "main_state \<Rightarrow> ok \<times> main_state" where
  "stopAnalysis s =
     (let s1 = s\<lparr>isAnalyzing := False\<rparr> in
      case analysisInterval s1 of
        Some i \<Rightarrow>
          (Success, s1\<lparr>timers := filter (\<lambda>t. fst t \<noteq> i) (timers s1), analysisInterval := None\<rparr>)
      | None \<Rightarrow> (Success, s1))"

subsection \<open>\<open>captureScreenshot\<close>\<close>

text \<open>
  \<open>Math.round\<close> rounds half up, exactly, on the value of a double. The product it is
  applied to is the engine's (\<open>times\<close>).
\<close>

definition mathRound :: "rat \<Rightarrow> int" where
  "mathRound q = \<lfloor>q + 1 / 2\<rfloor>"

datatype capture_result = Captured string crop_area | CaptureFailed string

text \<open>
  The body of the \<open>try\<close>: the list of displays is read, the screen is captured, the
  scale factor of the first display is taken (reading it from a missing display is a
  \<open>TypeError\<close>), the crop is computed and applied.
\<close>

definition captureAttempt :: "env \<Rightarrow> region \<Rightarrow> js_error + string \<times> crop_area" where
  "captureAttempt w a =
     (case screenshot w of
        Inl e \<Rightarrow> Inl e
      | Inr img \<Rightarrow>
          (case displays w of
             [] \<Rightarrow> Inl (TypeError (''Cannot read properties of undefined (reading ''
                               @ [CHR 0x27] @ ''scaleFactor'' @ [CHR 0x27] @ '')''))
           | primaryDisplay # others \<Rightarrow>
               let scaleFactor = (if primaryDisplay = 0 then 1 else primaryDisplay);
                   cropArea = \<lparr>crop_left = mathRound (times w (area_x a) scaleFactor),
                               crop_top = mathRound (times w (area_y a) scaleFactor),
                               crop_width = mathRound (times w (area_width a) scaleFactor),
                               crop_height = mathRound (times w (area_height a) scaleFactor)\<rparr>
               in case sharp w img cropArea of
                    Inl e \<Rightarrow> Inl e
                  | Inr base64 \<Rightarrow> Inr (base64, cropArea)))"

definition captureScreenshot :: "env \<Rightarrow> main_state \<Rightarrow> (js_error + capture_result) \<times> event list" where
  "captureScreenshot w s =
     (case captureArea s of
        None \<Rightarrow> (Inl (Error ''No capture area set''), [])
      | Some a \<Rightarrow>
          (case captureAttempt w a of
             Inr (base64, cropArea) \<Rightarrow> (Inr (Captured base64 cropArea), [ScreenRead])
           | Inl e \<Rightarrow> (Inr (CaptureFailed (message e)), [ScreenRead])))"

subsection \<open>The cycle\<close>

definition mainAnalyzeChart :: "env \<Rightarrow> main_state \<Rightarrow> string \<Rightarrow> (js_error + string) \<times> event list" where
  "mainAnalyzeChart w s imageBase64 =
     (case analyzeChart w (llmService s) imageBase64 of
        (Inl e, tr) \<Rightarrow> (Inl (Error (''Analysis failed: '' @ message e)), tr)
      | (Inr result, tr) \<Rightarrow> (Inr result, tr))"

definition send :: "main_state \<Rightarrow> event \<Rightarrow> event list" where
  "send s ev = (if mainWindow s then [ev] else [])"

text \<open>
  The two callbacks have the same shape and differ in the texts they send. \<open>cycleBody\<close>
  is the \<open>try\<close> block: it returns the error that leaves the block, if any, and what was
  done up to there. The callbacks assign no field of the state. A cycle is taken as one
  step: what other handlers do while it waits for the screen or the provider is not
  part of this model.
\<close>

record labels =
  capturing :: string
  analyzing :: string
  updated :: string
  captureFailed :: string
  analysisError :: string

definition probeLabels :: labels where
  "probeLabels =
     \<lparr>capturing = ''Capturing (immediate)'', analyzing = ''Analyzing (immediate)'',
      updated = ''Updated (immediate)'', captureFailed = ''Immediate capture failed'',
      analysisError = ''Immediate analysis error''\<rparr>"

definition recurringLabels :: "env \<Rightarrow> labels" where
  "recurringLabels w =
     \<lparr>capturing = ''Capturing'', analyzing = ''Analyzing'',
      updated = ''Updated at '' @ timeString w, captureFailed = ''Capture failed'',
      analysisError = ''Analysis error''\<rparr>"

definition cycleBody :: "labels \<Rightarrow> env \<Rightarrow> main_state \<Rightarrow> js_error option \<times> event list" where
  "cycleBody l w s =
     (case captureScreenshot w s of
        (Inl e, tr) \<Rightarrow> (Some e, send s (StatusUpdate (capturing l)) @ tr)
      | (Inr (CaptureFailed err), tr) \<Rightarrow>
          (None, send s (StatusUpdate (capturing l)) @ tr @ send s (StatusUpdate (captureFailed l)))
      | (Inr (Captured img cropArea), tr) \<Rightarrow>
          (case mainAnalyzeChart w s img of
             (Inl e, tr2) \<Rightarrow>
               (Some e, send s (StatusUpdate (capturing l)) @ tr @ send s (StatusUpdate (analyzing l)) @ tr2)
           | (Inr analysis, tr2) \<Rightarrow>
               (None, send s (StatusUpdate (capturing l)) @ tr @ send s (StatusUpdate (analyzing l)) @ tr2
                      @ send s (AnalysisResult analysis img) @ send s (StatusUpdate (updated l)))))"

text \<open>
  A callback returns the error that escapes it, the state and what it did. The first
  statement is the test of the running flag; the \<open>catch\<close> sends the generic status text.
\<close>

definition cycle :: "labels \<Rightarrow> env \<Rightarrow> main_state \<Rightarrow> js_error option \<times> main_state \<times> event list" where
  "cycle l w s =
     (if \<not> isAnalyzing s then (None, s, [])
      else case cycleBody l w s of
             (None, tr) \<Rightarrow> (None, s, tr)
           | (Some e, tr) \<Rightarrow> (None, s, tr @ send s (StatusUpdate (analysisError l))))"

definition probeCallback :: "env \<Rightarrow> main_state \<Rightarrow> js_error option \<times> main_state \<times> event list" where
  "probeCallback w s = cycle probeLabels w s"

definition intervalCallback :: "env \<Rightarrow> main_state \<Rightarrow> js_error option \<times> main_state \<times> event list" where
  "intervalCallback w s = cycle (recurringLabels w) w s"

text \<open>
  The event loop fires a pending timer: a timeout leaves the table when it fires, an
  interval stays.
\<close>

definition fire :: "env \<Rightarrow> nat \<Rightarrow> main_state \<Rightarrow> js_error option \<times> main_state \<times> event list" where
  "fire w tid s =
     (case map_of (timers s) tid of
        None \<Rightarrow> (None, s, [])
      | Some (Probe ms) \<Rightarrow> probeCallback w (s\<lparr>timers := filter (\<lambda>t. fst t \<noteq> tid) (timers s)\<rparr>)
      | Some (Recurring ms) \<Rightarrow> intervalCallback w s)"

subsection \<open>The handler of \<open>switch-llm-provider\<close>\<close>

datatype switch_reply = Switched string | SwitchFailed string

definition switchLlmProvider :: "string \<Rightarrow> main_state \<Rightarrow> switch_reply \<times> main_state" where
  "switchLlmProvider p s =
     (let s1 = s\<lparr>config := (config s)\<lparr>provider := toLowerCase p\<rparr>\<rparr> in
      case switchProvider (provider (config s1)) (llmService s1) of
        (None, svc) \<Rightarrow> (Switched (provider (config s1)), s1\<lparr>llmService := svc\<rparr>)
      | (Some e, svc) \<Rightarrow> (SwitchFailed (message e), s1\<lparr>llmService := svc\<rparr>))"

section \<open>The renderer (class SnapScalpRenderer)\<close>

text \<open>
  \<open>updateResults\<close> reads the fields of the parsed text with \<open>||\<close> defaults, then writes
  the decision banner, the scenario table and the two level badges; any exception on
  the way is caught and shown as the status \<open>Parse error\<close>, and what was written before it
  stays. The flash animation of the banner and the console output are left out.

  Two built-ins work on doubles: \<open>Number.prototype.toString\<close> and the truth of a number.
  They are exact here for the integers of \<open>JNum\<close>; for a lexeme of \<open>JDouble\<close> the printed
  form comes from a parameter (\<open>number_printer\<close>), and the number is zero when that form
  is \<open>0\<close>. \<open>parseInt\<close> gives the integer it reads, which is the program's number up to
  \<open>2^53\<close>.
\<close>

fun showNat :: "nat \<Rightarrow> string" where
  "showNat n = (if n < 10 then [''0123456789'' ! n] else showNat (n div 10) @ [''0123456789'' ! (n mod 10)])"

declare showNat.simps [simp del]

definition showInt :: "int \<Rightarrow> string" where
  "showInt i = (if i < 0 then CHR ''-'' # showNat (nat (- i)) else showNat (nat i))"

type_synonym number_printer = "string \<Rightarrow> string"

datatype js_number = NaN | Num int

definition numberToString :: "number_printer \<Rightarrow> js_number \<Rightarrow> string" where
  "numberToString nts n =
     (case n of
        NaN \<Rightarrow> ''NaN''
      | Num i \<Rightarrow> if \<bar>i\<bar> \<le> maxSafeInteger then showInt i else nts (showInt i))"

fun jsTruthy :: "number_printer \<Rightarrow> json \<Rightarrow> bool" where
  "jsTruthy nts JNull = False"
| "jsTruthy nts (JBool b) = b"
| "jsTruthy nts (JNum n) = (n \<noteq> 0)"
| "jsTruthy nts (JDouble lx) = (nts lx \<noteq> ''0'')"
| "jsTruthy nts (JStr s) = (s \<noteq> [])"
| "jsTruthy nts (JArr xs) = True"
| "jsTruthy nts (JObj kvs) = True"

definition orElse :: "number_printer \<Rightarrow> json option \<Rightarrow> json \<Rightarrow> json" where
  "orElse nts v d = (case v of None \<Rightarrow> d | Some j \<Rightarrow> if jsTruthy nts j then j else d)"

fun toStr :: "number_printer \<Rightarrow> json \<Rightarrow> js_error + string"
  and joinWith :: "number_printer \<Rightarrow> string \<Rightarrow> json list \<Rightarrow> js_error + string" where
  "toStr nts JNull = Inr ''null''"
| "toStr nts (JBool b) = Inr (if b then ''true'' else ''false'')"
| "toStr nts (JNum n) = Inr (showInt n)"
| "toStr nts (JDouble lx) = Inr (nts lx)"
| "toStr nts (JStr s) = Inr s"
| "toStr nts (JArr xs) = joinWith nts '','' xs"
| "toStr nts (JObj kvs) =
     (if ''toString'' \<in> fst ` set kvs then Inl (TypeError ''Cannot convert object to primitive value'')
      else Inr ''[object Object]'')"
| "joinWith nts sep [] = Inr []"
| "joinWith nts sep (x # xs) =
     (case (if x = JNull then Inr [] else toStr nts x) of
        Inl e \<Rightarrow> Inl e
      | Inr a \<Rightarrow>
          if xs = [] then Inr a
          else (case joinWith nts sep xs of Inl e \<Rightarrow> Inl e | Inr b \<Rightarrow> Inr (a @ sep @ b)))"

definition radixDigit :: "nat \<Rightarrow> char \<Rightarrow> nat option" where
  "radixDigit r c = (case hexVal c of Some v \<Rightarrow> if v < r then Some v else None | None \<Rightarrow> None)"

definition parseInt :: "string \<Rightarrow> js_number" where
  "parseInt s =
     (let s1 = trimStart s;
          neg = startsWith s1 ''-'';
          s2 = (if startsWith s1 ''-'' \<or> startsWith s1 ''+'' then drop 1 s1 else s1);
          hex = (startsWith s2 ''0x'' \<or> startsWith s2 ''0X'');
          r = (if hex then 16 else 10);
          s3 = (if hex then drop 2 s2 else s2);
          ds = takeWhile (\<lambda>c. radixDigit r c \<noteq> None) s3;
          v = foldl (\<lambda>a c. r * a + the (radixDigit r c)) 0 ds
      in if ds = [] then NaN else Num (if neg then - int v else int v))"


fun getProp :: "json \<Rightarrow> string \<Rightarrow> js_error + json option" where
  "getProp JNull k =
     Inl (TypeError (''Cannot read properties of null (reading '' @ [CHR 0x27] @ k @ [CHR 0x27] @ '')''))"
| "getProp (JObj kvs) k = Inr (map_of (rev kvs) k)"
| "getProp v k = Inr None"

fun getIndex :: "json \<Rightarrow> nat \<Rightarrow> json option" where
  "getIndex (JArr xs) i = (if i < length xs then Some (xs ! i) else None)"
| "getIndex (JStr s) i = (if i < length s then Some (JStr [s ! i]) else None)"
| "getIndex (JObj kvs) i = map_of (rev kvs) (showNat i)"
| "getIndex v i = None"

fun substring_0_80 :: "json \<Rightarrow> js_error + string" where
  "substring_0_80 (JStr s) = Inr (take 80 s)"
| "substring_0_80 v = Inl (TypeError ''substring is not a function'')"

fun slice_0_2 :: "json \<Rightarrow> js_error + json" where
  "slice_0_2 (JArr xs) = Inr (JArr (take 2 xs))"
| "slice_0_2 (JStr s) = Inr (JStr (take 2 s))"
| "slice_0_2 v = Inl (TypeError ''slice is not a function'')"

fun joinSpace :: "number_printer \<Rightarrow> json \<Rightarrow> js_error + string" where
  "joinSpace nts (JArr xs) = joinWith nts '' '' xs"
| "joinSpace nts v = Inl (TypeError ''join is not a function'')"

definition emDash :: string where
  "emDash = [CHR 0x97]"

record extracted =
  x_decision :: json
  x_confidence :: js_number
  x_reason :: string
  x_scenarios :: json
  x_levels :: json

definition extractFields :: "number_printer \<Rightarrow> json \<Rightarrow> js_error + extracted" where
  "extractFields nts data =
     (case getProp data ''decision'' of Inl e \<Rightarrow> Inl e | Inr dec \<Rightarrow>
      case getProp data ''confidence'' of Inl e \<Rightarrow> Inl e | Inr conf \<Rightarrow>
      case toStr nts (orElse nts conf (JNum 0)) of Inl e \<Rightarrow> Inl e | Inr confText \<Rightarrow>
      case getProp data ''reason'' of Inl e \<Rightarrow> Inl e | Inr rsn \<Rightarrow>
      case substring_0_80 (orElse nts rsn (JStr [])) of Inl e \<Rightarrow> Inl e | Inr reason \<Rightarrow>
      case getProp data ''scenarios'' of Inl e \<Rightarrow> Inl e | Inr scs \<Rightarrow>
      case slice_0_2 (orElse nts scs (JArr [])) of Inl e \<Rightarrow> Inl e | Inr scenarios \<Rightarrow>
      case getProp data ''levels'' of Inl e \<Rightarrow> Inl e | Inr lvl \<Rightarrow>
        Inr \<lparr>x_decision = orElse nts dec (JStr ''WAIT''),
             x_confidence = parseInt confText,
             x_reason = reason,
             x_scenarios = scenarios,
             x_levels = orElse nts lvl (JObj [])\<rparr>)"

text \<open>
  A table row is what the program gives it: the text assigned to \<open>innerHTML\<close> and the
  class added for the side. The text is the template of the source with the six values
  put in, each on a line of its own; what the browser makes of markup inside a value is
  not part of this model.
\<close>

record row =
  innerHTML :: string
  rowClass :: "string list"

definition tdLine :: "string \<Rightarrow> string" where
  "tdLine v = [CHR 0x0A] @ replicate 16 (CHR '' '') @ ''<td>'' @ v @ ''</td>''"

definition rowTemplate :: "string list \<Rightarrow> string" where
  "rowTemplate vs = concat (map tdLine vs) @ [CHR 0x0A] @ replicate 12 (CHR '' '')"

record display =
  statusLabel :: string
  decisionText :: string
  confidenceValue :: string
  reasonText :: string
  decisionBannerClass :: "string list"
  scenarioRows :: "row list"
  supportBadge :: string
  resistanceBadge :: string

definition updateStatus :: "display \<Rightarrow> string \<Rightarrow> display" where
  "updateStatus d status = d\<lparr>statusLabel := status\<rparr>"

fun toStrs :: "number_printer \<Rightarrow> json list \<Rightarrow> js_error + string list" where
  "toStrs nts [] = Inr []"
| "toStrs nts (v # vs) =
     (case toStr nts v of Inl e \<Rightarrow> Inl e | Inr a \<Rightarrow>
      case toStrs nts vs of Inl e \<Rightarrow> Inl e | Inr as \<Rightarrow> Inr (a # as))"

fun sideClass :: "json \<Rightarrow> js_error + string list" where
  "sideClass (JStr s) =
     Inr (if toLowerCase s = ''long'' then [''long'']
          else if toLowerCase s = ''short'' then [''short''] else [])"
| "sideClass v = Inl (TypeError ''side.toLowerCase is not a function'')"

definition makeRow :: "number_printer \<Rightarrow> json \<Rightarrow> js_error + row" where
  "makeRow nts scenario =
     (case getProp scenario ''side'' of Inl e \<Rightarrow> Inl e | Inr sd \<Rightarrow>
      case getProp scenario ''entry'' of Inl e \<Rightarrow> Inl e | Inr en \<Rightarrow>
      case getProp scenario ''stop'' of Inl e \<Rightarrow> Inl e | Inr st \<Rightarrow>
      case getProp scenario ''targets'' of Inl e \<Rightarrow> Inl e | Inr tg \<Rightarrow>
        let side = orElse nts sd (JStr []);
            entry = orElse nts en (JStr []);
            stop = orElse nts st (JStr []);
            targets = orElse nts tg (JArr []);
            t1 = orElse nts (getIndex targets 0) (JStr emDash);
            t2 = orElse nts (getIndex targets 1) (JStr emDash);
            t3 = orElse nts (getIndex targets 2) (JStr emDash)
        in case toStrs nts [side, entry, stop, t1, t2, t3] of Inl e \<Rightarrow> Inl e | Inr cs \<Rightarrow>
           case sideClass side of Inl e \<Rightarrow> Inl e | Inr cl \<Rightarrow>
             Inr \<lparr>innerHTML = rowTemplate cs, rowClass = cl\<rparr>)"

fun appendRows :: "number_printer \<Rightarrow> display \<Rightarrow> json list \<Rightarrow> display \<times> js_error option" where
  "appendRows nts d [] = (d, None)"
| "appendRows nts d (scenario # rest) =
     (case makeRow nts scenario of
        Inl e \<Rightarrow> (d, Some e)
      | Inr r \<Rightarrow> appendRows nts (d\<lparr>scenarioRows := scenarioRows d @ [r]\<rparr>) rest)"

definition updateScenariosTable :: "number_printer \<Rightarrow> display \<Rightarrow> json \<Rightarrow> display \<times> js_error option" where
  "updateScenariosTable nts d scenarios =
     (let d1 = d\<lparr>scenarioRows := []\<rparr> in
      case scenarios of
        JArr xs \<Rightarrow> appendRows nts d1 xs
      | _ \<Rightarrow> (d1, Some (TypeError ''scenarios.forEach is not a function'')))"

definition levelText :: "number_printer \<Rightarrow> json \<Rightarrow> string \<Rightarrow> js_error + string" where
  "levelText nts levels k =
     (case getProp levels k of Inl e \<Rightarrow> Inl e | Inr v \<Rightarrow>
      case slice_0_2 (orElse nts v (JArr [])) of Inl e \<Rightarrow> Inl e | Inr firstTwo \<Rightarrow>
      case joinSpace nts firstTwo of Inl e \<Rightarrow> Inl e | Inr t \<Rightarrow>
        Inr (if t = [] then emDash else t))"

fun bannerClass :: "string \<Rightarrow> string list" where
  "bannerClass decision =
     (if toLowerCase decision = ''long'' then [''decision-banner'', ''long'']
      else if toLowerCase decision = ''short'' then [''decision-banner'', ''short'']
      else [''decision-banner'', ''wait''])"

definition render :: "number_printer \<Rightarrow> display \<Rightarrow> string \<Rightarrow> display \<times> js_error option" where
  "render nts d analysisText =
     (case JSON_parse analysisText of
        None \<Rightarrow> (d, Some (SyntaxError ''JSON.parse''))
      | Some data \<Rightarrow>
     (case extractFields nts data of
        Inl e \<Rightarrow> (d, Some e)
      | Inr x \<Rightarrow>
     (case x_decision x of
        JStr decision \<Rightarrow>
          (let d1 = d\<lparr>decisionText := toUpperCase decision,
                       confidenceValue := numberToString nts (x_confidence x),
                       reasonText := (if x_reason x = [] then emDash else x_reason x),
                       decisionBannerClass := bannerClass decision\<rparr>
           in case updateScenariosTable nts d1 (x_scenarios x) of
                (d2, Some e) \<Rightarrow> (d2, Some e)
              | (d2, None) \<Rightarrow>
                  (case levelText nts (x_levels x) ''support'' of Inl e \<Rightarrow> (d2, Some e) | Inr support \<Rightarrow>
                   case levelText nts (x_levels x) ''resistance'' of Inl e \<Rightarrow> (d2, Some e) | Inr resistance \<Rightarrow>
                     (d2\<lparr>supportBadge := ''S '' @ support, resistanceBadge := ''R '' @ resistance\<rparr>, None)))
      | _ \<Rightarrow> (d, Some (TypeError ''decision.toUpperCase is not a function'')))))"

definition updateResults :: "number_printer \<Rightarrow> display \<Rightarrow> string \<Rightarrow> display" where
  "updateResults nts d analysisText =
     (case render nts d analysisText of
        (d', None) \<Rightarrow> d'
      | (d', Some e) \<Rightarrow> updateStatus d' ''Parse error'')"

section \<open>States and worlds used as examples\<close>

text \<open>
  A configuration with keys for two of the three providers, the service as \<open>initialize\<close>
  leaves it, an idle main process with a capture area, the same after \<open>startAnalysis\<close>
  and after \<open>stopAnalysis\<close>; a world in which everything answers, one in which the
  provider cannot be reached and one in which the screen cannot be read.
\<close>

definition keys0 :: api_keys where
  "keys0 = \<lparr>openai = ''sk-1'', claude = [], perplexity = ''pplx-1''\<rparr>"

definition svc0 :: llm_service where
  "svc0 = \<lparr>currentProvider = ''openai'',
           model = Some (ChatOpenAI ''sk-1'' ''gpt-5-chat-latest'' None),
           svcKeys = keys0\<rparr>"

definition area0 :: region where
  "area0 = \<lparr>area_x = 10, area_y = 20, area_width = 300, area_height = 200\<rparr>"

definition idle0 :: main_state where
  "idle0 = \<lparr>mainWindow = True, captureArea = Some area0,
            isAnalyzing = False, analysisInterval = None, llmService = svc0,
            config = \<lparr>provider = ''openai'', apiKeys = keys0\<rparr>,
            timers = [], nextTimerId = 1\<rparr>"

definition running0 :: main_state where
  "running0 = idle0\<lparr>isAnalyzing := True, timers := [(1, Probe 2000), (2, Recurring 30000)],
                    analysisInterval := Some 2, nextTimerId := 3\<rparr>"

definition stopped0 :: main_state where
  "stopped0 = idle0\<lparr>timers := [(1, Probe 2000)], nextTimerId := 3\<rparr>"

definition world0 :: env where
  \<open>world0 = \<lparr>displays = [2], times = (\<lambda>a b. a * b), screenshot = Inr ''png'',
             sharp = (\<lambda>img c. Inr ''b64''),
             invoke = (\<lambda>m msg. Inr ''{"decision":"Long"}''), timeString = ''12:00:00''\<rparr>\<close>

definition offline :: env where
  "offline = world0\<lparr>invoke := (\<lambda>m msg. Inl (Error ''fetch failed''))\<rparr>"

definition blind :: env where
  "blind = world0\<lparr>screenshot := Inl (Error ''screen capture failed'')\<rparr>"

definition noKeys :: api_keys where
  "noKeys = \<lparr>openai = [], claude = [], perplexity = []\<rparr>"

definition fresh :: llm_service where
  "fresh = \<lparr>currentProvider = ''openai'', model = None, svcKeys = noKeys\<rparr>"

definition pplx :: llm_service where
  "pplx = \<lparr>currentProvider = ''perplexity'',
           model = Some (ChatOpenAI ''pplx-1'' ''sonar-pro'' (Some ''https://api.perplexity.ai'')),
           svcKeys = keys0\<rparr>"

text \<open>
  The main process started without any key and with an area selected; the same after the
  handler of \<open>switch-llm-provider\<close> was called with \<open>constructor\<close>; the loop started,
  stopped and started again; a configuration with all three keys.
\<close>

definition unkeyed0 :: main_state where
  "unkeyed0 = idle0\<lparr>llmService := fresh, config := \<lparr>provider = ''openai'', apiKeys = noKeys\<rparr>\<rparr>"

definition inherited0 :: main_state where
  "inherited0 = idle0\<lparr>llmService := fresh\<lparr>currentProvider := ''constructor''\<rparr>,
                      config := \<lparr>provider = ''constructor'', apiKeys = noKeys\<rparr>\<rparr>"

definition restarted0 :: main_state where
  "restarted0 = idle0\<lparr>isAnalyzing := True,
                      timers := [(1, Probe 2000), (3, Probe 2000), (4, Recurring 30000)],
                      analysisInterval := Some 4, nextTimerId := 5\<rparr>"



definition nl :: string where
  "nl = [CHR 0x0A]"

definition backtickReason :: string where
  \<open>backtickReason = ''{"reason":"```"}''\<close>

definition blank :: display where
  "blank = \<lparr>statusLabel = [], decisionText = [], confidenceValue = [], reasonText = [],
            decisionBannerClass = [], scenarioRows = [], supportBadge = [], resistanceBadge = []\<rparr>"

text \<open>
  Text that consists of white space only, and text that \<open>trim\<close> leaves as it is.
\<close>

definition blankOnly :: "string \<Rightarrow> bool" where
  "blankOnly ws = (\<forall>c \<in> set ws. isWhiteSpace c)"

definition trimmed :: "string \<Rightarrow> bool" where
  "trimmed s = (s \<noteq> [] \<and> \<not> isWhiteSpace (hd s) \<and> \<not> isWhiteSpace (last s))"

text \<open>The example of the specification: a payload in a fence tagged \<open>json\<close>.\<close>

definition specExample :: string where
  \<open>specExample = ''{"decision":"Long","confidence":77,"reason":"breakout","scenarios":[{"side":"Long","entry":"100","stop":"98","targets":["105","110","115","120"]}],"levels":{"support":["95"],"resistance":["105","110","120"]}}''\<close>

section \<open>Starting and stopping the loop\<close>

lemma start0: "startAnalysis idle0 = (Inr Success, running0)"
  by (simp add: startAnalysis_def idle0_def running0_def keys0_def lookupKey_def Let_def)

lemma stop0: "stopAnalysis running0 = (Success, stopped0)"
  by (simp add: stopAnalysis_def idle0_def running0_def stopped0_def Let_def)

lemma restart0: "startAnalysis stopped0 = (Inr Success, restarted0)"
  by (simp add: startAnalysis_def idle0_def stopped0_def restarted0_def keys0_def lookupKey_def Let_def)

text \<open>
  The test \<open>!apiKeys[provider]\<close> and the specification's credential agree on every id
  that is not a name of \<open>Object.prototype\<close>. For those ids \<open>startAnalysis\<close> does what the
  specification says: it fails without an area, it fails without a credential, it
  succeeds with both, setting the flag and scheduling the two timers, and a failed call
  returns the state it was given.
\<close>

lemma guard_is_credential:
  assumes "p \<notin> set objectPrototypeNames"
  shows "truthy (lookupKey ks p) = credentialPresent ks p"
proof -
  consider "p = ''openai''" | "p = ''claude''" | "p = ''perplexity''"
    | "p \<noteq> ''openai'' \<and> p \<noteq> ''claude'' \<and> p \<noteq> ''perplexity''"
    by blast
  then show ?thesis
  proof cases
    case 4
    with assms show ?thesis
      by (simp add: lookupKey_def credentialPresent_def)
  qed (simp_all add: lookupKey_def credentialPresent_def)
qed

lemma startAnalysis_no_area:
  "captureArea s = None \<Longrightarrow> \<exists>e. startAnalysis s = (Inl e, s)"
  by (simp add: startAnalysis_def)

lemma startAnalysis_failure_keeps_state:
  "startAnalysis s = (Inl e, s') \<Longrightarrow> s' = s"
  by (auto simp: startAnalysis_def Let_def split: if_splits)

lemma startAnalysis_own_names:
  assumes "provider (config s) \<notin> set objectPrototypeNames"
  shows "\<not> credentialPresent (apiKeys (config s)) (provider (config s)) \<Longrightarrow>
           startAnalysis s = (Inl (Error (''Missing API key for '' @ provider (config s))), s)"
    and "credentialPresent (apiKeys (config s)) (provider (config s)) \<Longrightarrow> captureArea s = None \<Longrightarrow>
           startAnalysis s = (Inl (Error ''No capture area set''), s)"
    and "credentialPresent (apiKeys (config s)) (provider (config s)) \<Longrightarrow> captureArea s \<noteq> None \<Longrightarrow>
           startAnalysis s =
             (Inr Success,
              s\<lparr>isAnalyzing := True,
                timers := timers s @ [(nextTimerId s, Probe 2000), (nextTimerId s + 1, Recurring 30000)],
                analysisInterval := Some (nextTimerId s + 1),
                nextTimerId := nextTimerId s + 1 + 1\<rparr>)"
    and "startAnalysis s = (Inr r, s') \<Longrightarrow>
           captureArea s \<noteq> None \<and> credentialPresent (apiKeys (config s)) (provider (config s))"
  using guard_is_credential [OF assms, of "apiKeys (config s)"]
  by (auto simp: startAnalysis_def Let_def split: if_splits)

text \<open>
  C1. With \<open>constructor\<close> as the provider id and no key configured for any provider, no
  credential is present, and \<open>startAnalysis\<close> succeeds all the same: the idle loop gets
  its running flag and both timers. \<open>apiKeys[provider]\<close> finds the function
  \<open>Object.prototype.constructor\<close>, which is a true value. The state is the one the handler
  of \<open>switch-llm-provider\<close> leaves when it is called with that id: it fails, and
  \<open>config.provider\<close> keeps the id.
\<close>

theorem startAnalysis_inherited_name:
  "switchLlmProvider ''constructor'' unkeyed0
     = (SwitchFailed ''Unsupported LLM provider: constructor'', inherited0)
   \<and> \<not> credentialPresent (apiKeys (config inherited0)) (provider (config inherited0))
   \<and> captureArea inherited0 \<noteq> None \<and> \<not> isAnalyzing inherited0 \<and> timers inherited0 = []
   \<and> startAnalysis inherited0
       = (Inr Success,
          inherited0\<lparr>isAnalyzing := True, timers := [(1, Probe 2000), (2, Recurring 30000)],
                     analysisInterval := Some 2, nextTimerId := 3\<rparr>)"
  by code_simp

section \<open>Cleaning the provider's text\<close>

lemma fallback_payload:
  "JSON_parse fallbackResponse =
     Some (JObj [(''decision'', JStr ''Wait''), (''confidence'', JNum 50),
                 (''reason'', JStr ''JSON parsing error''), (''scenarios'', JArr []),
                 (''levels'', JObj [(''support'', JArr []), (''resistance'', JArr [])])])"
  by code_simp

lemma empty_object: "JSON_parse ''{}'' = Some (JObj [])"
  by code_simp

text \<open>
  C2, as stated, fails on the empty text and on text that is valid JSON without being
  an object: the empty text does not parse, yet the result is \<open>{}\<close>, not the fallback;
  \<open>42\<close> has no top-level object and is returned as it is.
\<close>

theorem extractJsonFromResponse_counterexample:
  "JSON_parse [] = None \<and> extractJsonFromResponse [] = ''{}'' \<and> ''{}'' \<noteq> fallbackResponse
   \<and> JSON_parse ''42'' = Some (JNum 42) \<and> extractJsonFromResponse ''42'' = ''42''
   \<and> ''42'' \<noteq> fallbackResponse"
  by code_simp

text \<open>
  C2, amended. For every text the result parses as JSON, so a payload is always
  produced. A non-empty text whose cleaned form does not parse gives the fallback
  text; one whose cleaned form parses, whatever its top-level value, gives that cleaned
  form; the empty text gives \<open>{}\<close>. The fallback text is the object with decision
  \<open>Wait\<close>, confidence 50, the reason \<open>JSON parsing error\<close>, no scenarios and empty
  support and resistance lists.
\<close>

theorem extractJsonFromResponse_fallback:
  "JSON_parse (extractJsonFromResponse content) \<noteq> None
   \<and> (content \<noteq> [] \<and> JSON_parse (cleanResponse content) = None \<longrightarrow>
        extractJsonFromResponse content = fallbackResponse)
   \<and> (content \<noteq> [] \<and> JSON_parse (cleanResponse content) \<noteq> None \<longrightarrow>
        extractJsonFromResponse content = cleanResponse content)
   \<and> extractJsonFromResponse [] = ''{}''
   \<and> JSON_parse fallbackResponse =
     Some (JObj [(''decision'', JStr ''Wait''), (''confidence'', JNum 50),
                 (''reason'', JStr ''JSON parsing error''), (''scenarios'', JArr []),
                 (''levels'', JObj [(''support'', JArr []), (''resistance'', JArr [])])])"
proof -
  have "JSON_parse (extractJsonFromResponse content) \<noteq> None"
  proof (cases "content = []")
    case True
    then show ?thesis
      by (simp add: extractJsonFromResponse_def empty_object)
  next
    case False
    then show ?thesis
      by (cases "JSON_parse (cleanResponse content)")
         (simp_all add: extractJsonFromResponse_def Let_def fallback_payload)
  qed
  moreover have "content \<noteq> [] \<and> JSON_parse (cleanResponse content) = None \<longrightarrow>
        extractJsonFromResponse content = fallbackResponse"
    by (simp add: extractJsonFromResponse_def Let_def)
  moreover have "content \<noteq> [] \<and> JSON_parse (cleanResponse content) \<noteq> None \<longrightarrow>
        extractJsonFromResponse content = cleanResponse content"
    by (auto simp: extractJsonFromResponse_def Let_def)
  moreover have "extractJsonFromResponse [] = ''{}''"
    by (simp add: extractJsonFromResponse_def)
  ultimately show ?thesis
    using fallback_payload by blast
qed

theorem extractJsonFromResponse_fallback_witness:
  \<open>''not json'' \<noteq> [] \<and> JSON_parse (cleanResponse ''not json'') = None
   \<and> extractJsonFromResponse ''not json'' = fallbackResponse
   \<and> ''{"a": [1, 2}'' \<noteq> [] \<and> JSON_parse (cleanResponse ''{"a": [1, 2}'') = None
   \<and> extractJsonFromResponse ''{"a": [1, 2}'' = fallbackResponse
   \<and> JSON_parse (cleanResponse (''```json'' @ nl @ ''[1, 2]'' @ nl @ ''```'')) \<noteq> None
   \<and> extractJsonFromResponse (''```json'' @ nl @ ''[1, 2]'' @ nl @ ''```'') = ''[1, 2]''\<close>
proof -
  have a: \<open>''not json'' \<noteq> [] \<and> JSON_parse (cleanResponse ''not json'') = None\<close>
    by code_simp
  have b: \<open>''{"a": [1, 2}'' \<noteq> [] \<and> JSON_parse (cleanResponse ''{"a": [1, 2}'') = None\<close>
    by code_simp
  have c: \<open>cleanResponse (''```json'' @ nl @ ''[1, 2]'' @ nl @ ''```'') = ''[1, 2]''\<close>
    by code_simp
  have d: \<open>JSON_parse ''[1, 2]'' = Some (JArr [JNum 1, JNum 2])\<close>
    by code_simp
  from extractJsonFromResponse_fallback [of "''not json''"]
    extractJsonFromResponse_fallback [of \<open>''{"a": [1, 2}''\<close>]
    extractJsonFromResponse_fallback [of \<open>''```json'' @ nl @ ''[1, 2]'' @ nl @ ''```''\<close>]
    a b c d
  show ?thesis
    by (simp add: nl_def)
qed

text \<open>
  A payload without a backtick, wrapped in a fence with white space around it, comes
  out of the function as it went in, for the tagged fence and for the untagged one.
  The lemmas follow the matcher: no fence is ahead inside the payload, so the lazy group
  runs to its end.
\<close>

lemma backtick_not_blank: "\<not> isWhiteSpace (CHR 0x60)"
  by (simp add: isWhiteSpace_def)

lemma fenceAhead_blank:
  "blankOnly ws \<Longrightarrow> fenceAhead (ws @ fence @ rest)"
proof (induction ws)
  case Nil
  then show ?case
    by (simp add: fence_def startsWith_def backtick_not_blank)
next
  case (Cons c ws)
  then show ?case
    by (simp add: blankOnly_def)
qed

lemma fenceAhead_none:
  "s \<noteq> [] \<Longrightarrow> CHR 0x60 \<notin> set s \<Longrightarrow> \<not> isWhiteSpace (last s) \<Longrightarrow> \<not> fenceAhead (s @ t)"
proof (induction s)
  case Nil
  then show ?case by simp
next
  case (Cons c r)
  show ?case
  proof (cases "isWhiteSpace c")
    case True
    with Cons.prems have "r \<noteq> []"
      by auto
    with Cons True show ?thesis
      by simp
  next
    case False
    with Cons.prems show ?thesis
      by (auto simp: startsWith_def fence_def)
  qed
qed

lemma lazyGroup_inner:
  "CHR 0x60 \<notin> set s \<Longrightarrow> s = [] \<or> \<not> isWhiteSpace (last s) \<Longrightarrow> blankOnly ws \<Longrightarrow>
   lazyGroup (s @ ws @ fence @ rest) = Some s"
proof (induction s)
  case Nil
  have ne: "ws @ fence @ rest \<noteq> []"
    by (simp add: fence_def)
  then obtain c cs where e: "ws @ fence @ rest = c # cs"
    by (cases "ws @ fence @ rest") auto
  from Nil.prems(3) have "fenceAhead (ws @ fence @ rest)"
    by (rule fenceAhead_blank)
  with e show ?case
    by simp
next
  case (Cons c r)
  from Cons.prems have nf: "\<not> fenceAhead ((c # r) @ ws @ fence @ rest)"
    by (intro fenceAhead_none) auto
  from Cons.prems have "r = [] \<or> \<not> isWhiteSpace (last r)"
    by (auto split: if_splits)
  with Cons have "lazyGroup (r @ ws @ fence @ rest) = Some r"
    by simp
  with nf show ?case
    by simp
qed

lemma afterTag_blank:
  "blankOnly ws \<Longrightarrow> s \<noteq> [] \<Longrightarrow> \<not> isWhiteSpace (hd s) \<Longrightarrow> lazyGroup (s @ t) = Some s \<Longrightarrow>
   afterTag (ws @ s @ t) = Some s"
proof (induction ws)
  case Nil
  then show ?case
    by (cases s) auto
next
  case (Cons w ws)
  then show ?case
    by (simp add: blankOnly_def)
qed

lemma matchJsonBlock_tagged:
  assumes "blankOnly ws1" and "blankOnly ws2" and "trimmed s" and "CHR 0x60 \<notin> set s"
  shows "matchJsonBlock (jsonTag @ ws1 @ s @ ws2 @ fence) = Some s"
proof -
  from assms have "lazyGroup (s @ ws2 @ fence @ []) = Some s"
    by (intro lazyGroup_inner) (auto simp: trimmed_def)
  with assms have "afterTag (ws1 @ s @ ws2 @ fence) = Some s"
    by (intro afterTag_blank) (auto simp: trimmed_def)
  then show ?thesis
    by (simp add: jsonTag_def startsWith_def)
qed

lemma trim_trimmed: "trimmed s \<Longrightarrow> trim s = s"
proof -
  assume t: "trimmed s"
  then obtain c r where s: "s = c # r" and c: "\<not> isWhiteSpace c"
    by (cases s) (auto simp: trimmed_def)
  from t have "rev s \<noteq> [] \<and> \<not> isWhiteSpace (hd (rev s))"
    by (simp add: trimmed_def hd_rev)
  then have "dropWhile isWhiteSpace (rev s) = rev s"
    by (cases "rev s") auto
  with s c show ?thesis
    by (simp add: trim_def trimStart_def trimEnd_def)
qed

lemma trim_padded:
  assumes "blankOnly ws1" and "blankOnly ws2" and "trimmed s"
  shows "trim (ws1 @ s @ ws2) = s"
proof -
  from assms(3) obtain c r where s: "s = c # r" and c: "\<not> isWhiteSpace c"
    by (cases s) (auto simp: trimmed_def)
  from assms(1) s c have a: "dropWhile isWhiteSpace (ws1 @ s @ ws2) = s @ ws2"
    by (simp add: blankOnly_def dropWhile_append)
  from assms(3) have "rev s \<noteq> [] \<and> \<not> isWhiteSpace (hd (rev s))"
    by (simp add: trimmed_def hd_rev)
  then have "dropWhile isWhiteSpace (rev s) = rev s"
    by (cases "rev s") auto
  with assms(2) have "dropWhile isWhiteSpace (rev (s @ ws2)) = rev s"
    by (simp add: blankOnly_def dropWhile_append)
  with a show ?thesis
    by (simp add: trim_def trimStart_def trimEnd_def)
qed

lemma fenced_trimmed: "trimmed (fence @ mid @ fence)"
  by (simp add: trimmed_def fence_def backtick_not_blank)

lemma tagged_trimmed: "trimmed (jsonTag @ mid @ fence)"
  by (simp add: trimmed_def fence_def jsonTag_def backtick_not_blank)

lemma matchJsonBlock_no_backtick:
  "CHR 0x60 \<notin> set u \<Longrightarrow> matchJsonBlock (u @ fence) = None"
proof (induction u)
  case Nil
  then show ?case
    by (simp add: fence_def jsonTag_def startsWith_def)
next
  case (Cons c u)
  then show ?case
    by (auto simp: startsWith_def jsonTag_def)
qed

lemma matchJsonBlock_untagged:
  assumes "blankOnly ws1" and "ws1 \<noteq> []" and "blankOnly ws2" and "CHR 0x60 \<notin> set s"
  shows "matchJsonBlock (fence @ ws1 @ s @ ws2 @ fence) = None"
proof -
  from assms(2) obtain w ws where w: "ws1 = w # ws"
    by (cases ws1) auto
  with assms(1) have ww: "isWhiteSpace w"
    by (simp add: blankOnly_def)
  then have wj: "w \<noteq> CHR ''j''" and wb: "w \<noteq> CHR 0x60"
    by (auto simp: isWhiteSpace_def)
  from assms have "CHR 0x60 \<notin> set (ws1 @ s @ ws2)"
    using backtick_not_blank by (auto simp: blankOnly_def)
  then have "matchJsonBlock ((ws1 @ s @ ws2) @ fence) = None"
    by (rule matchJsonBlock_no_backtick)
  with w wj wb show ?thesis
    by (simp add: fence_def jsonTag_def startsWith_def)
qed

lemma extract_tagged_fence:
  assumes "blankOnly ws1" and "blankOnly ws2" and "trimmed inner" and "CHR 0x60 \<notin> set inner"
    and "JSON_parse inner \<noteq> None"
  shows "extractJsonFromResponse (jsonTag @ ws1 @ inner @ ws2 @ fence) = inner"
proof -
  have "trim (jsonTag @ (ws1 @ inner @ ws2) @ fence) = jsonTag @ (ws1 @ inner @ ws2) @ fence"
    by (rule trim_trimmed [OF tagged_trimmed])
  with assms have "cleanResponse (jsonTag @ ws1 @ inner @ ws2 @ fence) = inner"
    by (simp add: cleanResponse_def matchJsonBlock_tagged trim_trimmed)
  with assms(5) show ?thesis
    by (auto simp: extractJsonFromResponse_def jsonTag_def)
qed

lemma extract_untagged_fence:
  assumes "blankOnly ws1" and "ws1 \<noteq> []" and "blankOnly ws2" and "trimmed inner"
    and "CHR 0x60 \<notin> set inner" and "JSON_parse inner \<noteq> None"
  shows "extractJsonFromResponse (fence @ ws1 @ inner @ ws2 @ fence) = inner"
proof -
  let ?mid = "ws1 @ inner @ ws2"
  have t: "trim (fence @ ?mid @ fence) = fence @ ?mid @ fence"
    by (rule trim_trimmed [OF fenced_trimmed])
  have m: "matchJsonBlock (fence @ ?mid @ fence) = None"
    using matchJsonBlock_untagged [OF assms(1,2,3,5)] by simp
  have se: "startsWith (fence @ ?mid @ fence) fence \<and> endsWith (fence @ ?mid @ fence) fence"
    by (simp add: startsWith_def endsWith_def fence_def)
  have sl: "slice_3_m3 (fence @ ?mid @ fence) = ?mid"
    by (simp add: slice_3_m3_def fence_def)
  from t m se sl have "cleanResponse (fence @ ?mid @ fence) = trim ?mid"
    by (simp add: cleanResponse_def)
  with assms have "cleanResponse (fence @ ?mid @ fence) = inner"
    by (simp add: trim_padded)
  with assms(6) show ?thesis
    by (auto simp: extractJsonFromResponse_def fence_def)
qed

text \<open>
  C3. The text \<open>{"reason":"```"}\<close> is valid JSON. Wrapped in a fence tagged \<open>json\<close> the
  lazy group stops at the backticks inside the string, the cut text does not parse and
  the result is the fallback; wrapped in an untagged fence, where the function slices
  three code units off each end, the result is the inner text.
\<close>

theorem tagged_fence_backticks_inside:
  "JSON_parse backtickReason = Some (JObj [(''reason'', JStr ''```'')])
   \<and> extractJsonFromResponse (''```json'' @ nl @ backtickReason @ nl @ ''```'') = fallbackResponse
   \<and> extractJsonFromResponse (''```'' @ nl @ backtickReason @ nl @ ''```'') = backtickReason"
  by code_simp

section \<open>Presenting a payload\<close>

text \<open>
  What \<open>updateResults\<close> does with the fields it can read: the reason is cut at 80 code
  units and the scenarios at two; an absent decision is \<open>WAIT\<close>, an absent confidence
  0; a row is built from the first three targets only; of each level list the first two
  entries are shown.
\<close>

lemma substring_0_80_length: "substring_0_80 v = Inr r \<Longrightarrow> length r \<le> 80"
  by (cases v) auto

lemma slice_0_2_length:
  "slice_0_2 v = Inr r \<Longrightarrow> (\<exists>xs. r = JArr xs \<and> length xs \<le> 2) \<or> (\<exists>t. r = JStr t \<and> length t \<le> 2)"
  by (cases v) auto

lemma extractFields_bounds:
  assumes "extractFields nts data = Inr x"
  shows "length (x_reason x) \<le> 80"
    and "(\<exists>xs. x_scenarios x = JArr xs \<and> length xs \<le> 2) \<or> (\<exists>t. x_scenarios x = JStr t \<and> length t \<le> 2)"
  using assms
  by (auto simp: extractFields_def split: sum.splits dest: substring_0_80_length slice_0_2_length)

lemma extractFields_absent:
  assumes "extractFields nts (JObj kvs) = Inr x"
  shows "map_of (rev kvs) ''decision'' = None \<Longrightarrow> x_decision x = JStr ''WAIT''"
    and "map_of (rev kvs) ''confidence'' = None \<Longrightarrow> x_confidence x = Num 0"
    and "map_of (rev kvs) ''reason'' = None \<Longrightarrow> x_reason x = []"
    and "map_of (rev kvs) ''scenarios'' = None \<Longrightarrow> x_scenarios x = JArr []"
proof -
  have z: "parseInt ''0'' = Num 0"
    by code_simp
  have s: "showInt 0 = ''0''"
    by code_simp
  show "map_of (rev kvs) ''decision'' = None \<Longrightarrow> x_decision x = JStr ''WAIT''"
    using assms by (auto simp: extractFields_def orElse_def split: sum.splits)
  show "map_of (rev kvs) ''confidence'' = None \<Longrightarrow> x_confidence x = Num 0"
    using assms by (auto simp: extractFields_def orElse_def z s split: sum.splits)
  show "map_of (rev kvs) ''reason'' = None \<Longrightarrow> x_reason x = []"
    using assms by (auto simp: extractFields_def orElse_def split: sum.splits)
  show "map_of (rev kvs) ''scenarios'' = None \<Longrightarrow> x_scenarios x = JArr []"
    using assms by (auto simp: extractFields_def orElse_def split: sum.splits)
qed

lemma getIndex_take: "i < 3 \<Longrightarrow> getIndex (JArr (take 3 ts)) i = getIndex (JArr ts) i"
  by auto

lemma makeRow_first_three_targets:
  "makeRow nts (JObj (kvs @ [(''targets'', JArr ts)])) = makeRow nts (JObj (kvs @ [(''targets'', JArr (take 3 ts))]))"
  by (simp add: makeRow_def orElse_def Let_def getIndex_take del: getIndex.simps
        cong del: sum.case_cong_weak option.case_cong_weak)

lemma levelText_first_two:
  "levelText nts (JObj (kvs @ [(k, JArr xs)])) k = levelText nts (JObj (kvs @ [(k, JArr (take 2 xs))])) k"
  by (simp add: levelText_def orElse_def)

lemma specExample_shown:
  "extractJsonFromResponse (''```json'' @ nl @ specExample @ nl @ ''```'') = specExample
   \<and> updateResults nts blank specExample =
       blank\<lparr>decisionText := ''LONG'', confidenceValue := ''77'', reasonText := ''breakout'',
             decisionBannerClass := [''decision-banner'', ''long''],
             scenarioRows := [\<lparr>innerHTML = rowTemplate [''Long'', ''100'', ''98'', ''105'', ''110'', ''115''],
                               rowClass = [''long'']\<rparr>],
             supportBadge := ''S 95'', resistanceBadge := ''R 105 110''\<rparr>"
  by code_simp

text \<open>
  C4. The payload \<open>{"confidence":"high"}\<close> parses, and its confidence is not a number:
  \<open>parseInt\<close> of a non-numeric string is \<open>NaN\<close>, the \<open>|| 0\<close> default applies only to an
  absent or false value, and the banner shows \<open>NaN\<close> without any parse error being
  reported.
\<close>

theorem confidence_not_a_number:
  \<open>JSON_parse ''{"confidence":"high"}'' = Some (JObj [(''confidence'', JStr ''high'')])
   \<and> map_sum id x_confidence (extractFields nts (JObj [(''confidence'', JStr ''high'')])) = Inr NaN
   \<and> confidenceValue (updateResults nts blank ''{"confidence":"high"}'') = ''NaN''
   \<and> statusLabel (updateResults nts blank ''{"confidence":"high"}'') = []\<close>
  by code_simp

section \<open>The cycle\<close>

lemma capture_running0:
  "captureScreenshot w running0 =
     (case captureAttempt w area0 of
        Inr (base64, cropArea) \<Rightarrow> (Inr (Captured base64 cropArea), [ScreenRead])
      | Inl e \<Rightarrow> (Inr (CaptureFailed (message e)), [ScreenRead]))"
  by (simp add: captureScreenshot_def running0_def idle0_def)

lemma attempt_offline:
  "captureAttempt offline area0 =
     Inr (''b64'', \<lparr>crop_left = 20, crop_top = 40, crop_width = 600, crop_height = 400\<rparr>)"
  by code_simp

lemma analyze_offline:
  "analyzeChart offline svc0 ''b64'' =
     (Inl (Error ''Analysis failed with openai: fetch failed''), [ModelInvoked (ImageMessage ''b64'')])"
  by code_simp

lemma body_offline:
  "cycleBody (recurringLabels offline) offline running0 =
     (Some (Error ''Analysis failed: Analysis failed with openai: fetch failed''),
      [StatusUpdate ''Capturing'', ScreenRead, StatusUpdate ''Analyzing'',
       ModelInvoked (ImageMessage ''b64'')])"
proof -
  have svc: "llmService running0 = svc0" and win: "mainWindow running0"
    by (simp_all add: running0_def idle0_def)
  show ?thesis
    by (simp add: cycleBody_def capture_running0 attempt_offline mainAnalyzeChart_def svc
          analyze_offline send_def win recurringLabels_def)
qed

text \<open>
  C5. No error leaves either callback, and neither changes the state: the running flag,
  the timer table and the handle of the recurring timer are as before. When the \<open>try\<close>
  block of a running loop ends in an error, what the callback adds to what the block
  had done is the one generic status text. Firing the recurring timer leaves the state,
  the timer included, as it was.
\<close>

theorem failed_cycle_contained:
  "fst (probeCallback w s) = None \<and> fst (snd (probeCallback w s)) = s
   \<and> fst (intervalCallback w s) = None \<and> fst (snd (intervalCallback w s)) = s
   \<and> (isAnalyzing s \<and> cycleBody probeLabels w s = (Some e, tr) \<longrightarrow>
        probeCallback w s = (None, s, tr @ send s (StatusUpdate ''Immediate analysis error'')))
   \<and> (isAnalyzing s \<and> cycleBody (recurringLabels w) w s = (Some e, tr) \<longrightarrow>
        intervalCallback w s = (None, s, tr @ send s (StatusUpdate ''Analysis error'')))
   \<and> (map_of (timers s) tid = Some (Recurring ms) \<longrightarrow>
        fst (fire w tid s) = None \<and> fst (snd (fire w tid s)) = s)"
  by (auto simp: probeCallback_def intervalCallback_def cycle_def fire_def probeLabels_def
        recurringLabels_def split: prod.splits option.splits)

theorem failed_cycle_contained_witness:
  "isAnalyzing running0
   \<and> cycleBody (recurringLabels offline) offline running0 =
       (Some (Error ''Analysis failed: Analysis failed with openai: fetch failed''),
        [StatusUpdate ''Capturing'', ScreenRead, StatusUpdate ''Analyzing'',
         ModelInvoked (ImageMessage ''b64'')])
   \<and> map_of (timers running0) 2 = Some (Recurring 30000)
   \<and> fire offline 2 running0 =
       (None, running0,
        [StatusUpdate ''Capturing'', ScreenRead, StatusUpdate ''Analyzing'',
         ModelInvoked (ImageMessage ''b64''), StatusUpdate ''Analysis error''])"
proof -
  have run: "isAnalyzing running0"
    by (simp add: running0_def)
  have tm: "map_of (timers running0) 2 = Some (Recurring 30000)"
    by (simp add: running0_def)
  have win: "send running0 (StatusUpdate ''Analysis error'') = [StatusUpdate ''Analysis error'']"
    by (simp add: send_def running0_def idle0_def)
  have "fire offline 2 running0 = intervalCallback offline running0"
    by (simp add: fire_def tm)
  with failed_cycle_contained [where w=offline and s=running0 and tid=2 and ms=30000]
    run body_offline tm win
  show ?thesis
    by simp
qed

text \<open>
  While the running flag is clear, the probe and the recurring callback return at once:
  no status text, no screen read, no request to the provider, nothing published.
  \<open>stopAnalysis\<close> takes the recurring timer out of the table, so after a stop only
  probes are left to fire.
\<close>

lemma flag_clear_skips:
  assumes "\<not> isAnalyzing s"
  shows "probeCallback w s = (None, s, [])"
    and "intervalCallback w s = (None, s, [])"
    and "map_of (timers s) tid = Some (Probe ms) \<Longrightarrow>
           snd (snd (fire w tid s)) = [] \<and> \<not> isAnalyzing (fst (snd (fire w tid s)))"
    and "map_of (timers s) tid = Some (Recurring ms) \<Longrightarrow> fire w tid s = (None, s, [])"
  using assms by (simp_all add: probeCallback_def intervalCallback_def cycle_def fire_def)

lemma map_of_filter_other: "map_of (filter (\<lambda>t. fst t \<noteq> i) xs) i = None"
  by (induction xs) auto

lemma stop_clears_interval:
  "analysisInterval s = Some i \<Longrightarrow> map_of (timers (snd (stopAnalysis s))) i = None"
  by (simp add: stopAnalysis_def Let_def map_of_filter_other)

lemma capture_restarted0:
  "captureScreenshot world0 (restarted0\<lparr>timers := [(3, Probe 2000), (4, Recurring 30000)]\<rparr>) =
     (Inr (Captured ''b64'' \<lparr>crop_left = 20, crop_top = 40, crop_width = 600, crop_height = 400\<rparr>),
      [ScreenRead])"
proof -
  have "captureAttempt world0 area0 =
     Inr (''b64'', \<lparr>crop_left = 20, crop_top = 40, crop_width = 600, crop_height = 400\<rparr>)"
    by code_simp
  then show ?thesis
    by (simp add: captureScreenshot_def restarted0_def idle0_def)
qed

lemma analyze_world0:
  \<open>analyzeChart world0 svc0 ''b64'' =
     (Inr ''{"decision":"Long"}'', [ModelInvoked (ImageMessage ''b64'')])\<close>
  by code_simp

lemma probe_restarted0:
  \<open>probeCallback world0 (restarted0\<lparr>timers := [(3, Probe 2000), (4, Recurring 30000)]\<rparr>) =
     (None, restarted0\<lparr>timers := [(3, Probe 2000), (4, Recurring 30000)]\<rparr>,
      [StatusUpdate ''Capturing (immediate)'', ScreenRead, StatusUpdate ''Analyzing (immediate)'',
       ModelInvoked (ImageMessage ''b64''), AnalysisResult ''{"decision":"Long"}'' ''b64'',
       StatusUpdate ''Updated (immediate)''])\<close>
proof -
  let ?s = "restarted0\<lparr>timers := [(3, Probe 2000), (4, Recurring 30000)]\<rparr>"
  have svc: "llmService ?s = svc0" and win: "mainWindow ?s" and run: "isAnalyzing ?s"
    by (simp_all add: restarted0_def idle0_def)
  show ?thesis
    by (simp add: probeCallback_def cycle_def run cycleBody_def capture_restarted0
          mainAnalyzeChart_def svc analyze_world0 send_def win probeLabels_def)
qed

text \<open>
  C6. The loop is started, stopped and started again. The probe of the first start was
  scheduled before the stop, is still in the timer table, and runs a whole cycle when it
  fires: status texts are sent, the screen is read, the provider is asked and the result
  is published. \<open>stopAnalysis\<close> clears the interval, whose handle it keeps; the handle of
  the timeout is never kept, and the second start sets the flag the probe tests.
\<close>

theorem stale_probe_runs_after_restart:
  \<open>startAnalysis idle0 = (Inr Success, running0)
   \<and> map_of (timers running0) 1 = Some (Probe 2000)
   \<and> stopAnalysis running0 = (Success, stopped0)
   \<and> \<not> isAnalyzing stopped0
   \<and> startAnalysis stopped0 = (Inr Success, restarted0)
   \<and> map_of (timers restarted0) 1 = Some (Probe 2000)
   \<and> fire world0 1 restarted0 =
       (None, restarted0\<lparr>timers := [(3, Probe 2000), (4, Recurring 30000)]\<rparr>,
        [StatusUpdate ''Capturing (immediate)'', ScreenRead, StatusUpdate ''Analyzing (immediate)'',
         ModelInvoked (ImageMessage ''b64''), AnalysisResult ''{"decision":"Long"}'' ''b64'',
         StatusUpdate ''Updated (immediate)''])\<close>
proof -
  have a: "map_of (timers running0) 1 = Some (Probe 2000)"
    by (simp add: running0_def)
  have b: "\<not> isAnalyzing stopped0"
    by (simp add: stopped0_def idle0_def)
  have c: "map_of (timers restarted0) 1 = Some (Probe 2000)"
    by (simp add: restarted0_def)
  have "fire world0 1 restarted0 =
      probeCallback world0 (restarted0\<lparr>timers := [(3, Probe 2000), (4, Recurring 30000)]\<rparr>)"
    by (simp add: fire_def restarted0_def)
  with start0 stop0 restart0 a b c probe_restarted0 show ?thesis
    by simp
qed

text \<open>
  C8. Without a capture area \<open>captureScreenshot\<close> throws \<open>No capture area set\<close> before it
  reads the screen. With an area it never throws: it returns a result, and an error of
  the screen capture, of the display lookup or of the crop comes back as the failed
  result carrying the error's message.
\<close>

theorem captureScreenshot_boundary:
  "(captureArea s = None \<longrightarrow> captureScreenshot w s = (Inl (Error ''No capture area set''), []))
   \<and> (captureArea s \<noteq> None \<longrightarrow> (\<exists>r. captureScreenshot w s = (Inr r, [ScreenRead])))
   \<and> (\<forall>a e. captureArea s = Some a \<and> captureAttempt w a = Inl e \<longrightarrow>
         captureScreenshot w s = (Inr (CaptureFailed (message e)), [ScreenRead]))
   \<and> (\<forall>a e. screenshot w = Inl e \<longrightarrow> captureAttempt w a = Inl e)
   \<and> (\<forall>a e img f fs. screenshot w = Inr img \<and> displays w = f # fs
         \<and> sharp w img \<lparr>crop_left = mathRound (times w (area_x a) (if f = 0 then 1 else f)),
                          crop_top = mathRound (times w (area_y a) (if f = 0 then 1 else f)),
                          crop_width = mathRound (times w (area_width a) (if f = 0 then 1 else f)),
                          crop_height = mathRound (times w (area_height a) (if f = 0 then 1 else f))\<rparr> = Inl e
         \<longrightarrow> captureAttempt w a = Inl e)"
  by (auto simp: captureScreenshot_def captureAttempt_def Let_def split: sum.splits list.splits)

theorem captureScreenshot_boundary_witness:
  "captureArea (idle0\<lparr>captureArea := None\<rparr>) = None
   \<and> captureScreenshot world0 (idle0\<lparr>captureArea := None\<rparr>) = (Inl (Error ''No capture area set''), [])
   \<and> captureArea idle0 = Some area0
   \<and> screenshot blind = Inl (Error ''screen capture failed'')
   \<and> captureAttempt blind area0 = Inl (Error ''screen capture failed'')
   \<and> captureScreenshot blind idle0 = (Inr (CaptureFailed ''screen capture failed''), [ScreenRead])"
proof -
  have a: "captureArea idle0 = Some area0"
    by (simp add: idle0_def)
  have b: "screenshot blind = Inl (Error ''screen capture failed'')"
    by (simp add: blind_def world0_def)
  from captureScreenshot_boundary [of "idle0\<lparr>captureArea := None\<rparr>" world0]
    captureScreenshot_boundary [of idle0 blind] a b
  show ?thesis
    by simp
qed

section \<open>Switching the provider\<close>


text \<open>
  \<open>setupProvider\<close> against the specification's credential: it throws when none is present
  for the lowered id, and otherwise installs the model of that provider, built with
  that provider's key.
\<close>

lemma setupProvider_no_credential:
  assumes "\<not> credentialPresent (svcKeys svc) (toLowerCase (currentProvider svc))"
  shows "\<exists>e. setupProvider svc = Inl e"
proof -
  let ?q = "toLowerCase (currentProvider svc)"
  consider "?q = ''openai''" | "?q = ''claude''" | "?q = ''perplexity''"
    | "?q \<noteq> ''openai'' \<and> ?q \<noteq> ''claude'' \<and> ?q \<noteq> ''perplexity''"
    by blast
  then show ?thesis
  proof cases
    case 1
    with assms have "openai (svcKeys svc) = []"
      by (simp add: credentialPresent_def)
    with 1 show ?thesis
      by (simp add: setupProvider_def)
  next
    case 2
    with assms have "claude (svcKeys svc) = []"
      by (simp add: credentialPresent_def)
    with 2 show ?thesis
      by (simp add: setupProvider_def)
  next
    case 3
    with assms have "perplexity (svcKeys svc) = []"
      by (simp add: credentialPresent_def)
    with 3 show ?thesis
      by (simp add: setupProvider_def)
  next
    case 4
    then show ?thesis
      by (simp add: setupProvider_def)
  qed
qed





lemma switchProvider_no_credential:
  assumes "p \<noteq> currentProvider svc" and "\<not> credentialPresent (svcKeys svc) (toLowerCase p)"
  shows "\<exists>e. switchProvider p svc = (Some e, svc\<lparr>currentProvider := p\<rparr>)"
proof -
  have "\<exists>e. setupProvider (svc\<lparr>currentProvider := p\<rparr>) = Inl e"
    using assms(2) setupProvider_no_credential [of "svc\<lparr>currentProvider := p\<rparr>"] by simp
  with assms(1) show ?thesis
    by (auto simp: switchProvider_def)
qed






lemma lowerChar_other: "c \<notin> set (asciiUpper @ latinUpper) \<Longrightarrow> lowerChar c = c"
proof -
  assume a: "c \<notin> set (asciiUpper @ latinUpper)"
  have len: "length (asciiUpper @ latinUpper) = length (asciiLower @ latinLower)"
    by (simp add: asciiUpper_def asciiLower_def latinUpper_def latinLower_def)
  from a have "map_of (zip (asciiUpper @ latinUpper) (asciiLower @ latinLower)) c = None"
    using map_of_zip_is_None [OF len] by blast
  then show ?thesis
    by (simp add: lowerChar_def)
qed

lemma lowerChar_capitals:
  "list_all (\<lambda>c. lowerChar (lowerChar c) = lowerChar c) (asciiUpper @ latinUpper)"
  by code_simp

lemma lowerChar_idem: "lowerChar (lowerChar c) = lowerChar c"
proof (cases "c \<in> set (asciiUpper @ latinUpper)")
  case True
  with lowerChar_capitals show ?thesis
    unfolding list_all_iff by blast
next
  case False
  then have "lowerChar c = c"
    by (rule lowerChar_other)
  then show ?thesis
    by simp
qed

lemma toLowerCase_idem: "toLowerCase (toLowerCase s) = toLowerCase s"
  by (simp add: toLowerCase_def lowerChar_idem)

text \<open>
  C10. The handler of \<open>switch-llm-provider\<close>, called with an id other than the service's
  current one and with no credential present for it, answers with a failure and leaves
  both provider fields at the new id, \<open>config.provider\<close> and the service's
  \<open>currentProvider\<close>, while the model object is the one from before the call.
\<close>

theorem failed_switch_mixed_state:
  "toLowerCase p \<noteq> currentProvider (llmService s)
   \<and> \<not> credentialPresent (svcKeys (llmService s)) (toLowerCase p) \<longrightarrow>
     (\<exists>msg s'. switchLlmProvider p s = (SwitchFailed msg, s')
        \<and> provider (config s') = toLowerCase p
        \<and> currentProvider (llmService s') = toLowerCase p
        \<and> model (llmService s') = model (llmService s)
        \<and> s' = s\<lparr>config := (config s)\<lparr>provider := toLowerCase p\<rparr>,
                  llmService := (llmService s)\<lparr>currentProvider := toLowerCase p\<rparr>\<rparr>)"
proof
  assume a: "toLowerCase p \<noteq> currentProvider (llmService s)
   \<and> \<not> credentialPresent (svcKeys (llmService s)) (toLowerCase p)"
  then have 1: "toLowerCase p \<noteq> currentProvider (llmService s)"
    and 2: "\<not> credentialPresent (svcKeys (llmService s)) (toLowerCase (toLowerCase p))"
    by (simp_all add: toLowerCase_idem)
  from switchProvider_no_credential [OF 1 2] obtain e where
    sw: "switchProvider (toLowerCase p) (llmService s)
      = (Some e, (llmService s)\<lparr>currentProvider := toLowerCase p\<rparr>)" ..
  have "switchLlmProvider p s =
     (SwitchFailed (message e),
      s\<lparr>config := (config s)\<lparr>provider := toLowerCase p\<rparr>,
        llmService := (llmService s)\<lparr>currentProvider := toLowerCase p\<rparr>\<rparr>)"
    by (simp add: switchLlmProvider_def Let_def sw)
  then show "\<exists>msg s'. switchLlmProvider p s = (SwitchFailed msg, s')
        \<and> provider (config s') = toLowerCase p
        \<and> currentProvider (llmService s') = toLowerCase p
        \<and> model (llmService s') = model (llmService s)
        \<and> s' = s\<lparr>config := (config s)\<lparr>provider := toLowerCase p\<rparr>,
                  llmService := (llmService s)\<lparr>currentProvider := toLowerCase p\<rparr>\<rparr>"
    by simp
qed

lemma switch_claude:
  "switchLlmProvider ''Claude'' idle0 =
     (SwitchFailed ''Claude API key not configured'',
      idle0\<lparr>config := \<lparr>provider = ''claude'', apiKeys = keys0\<rparr>,
            llmService := svc0\<lparr>currentProvider := ''claude''\<rparr>\<rparr>)"
  by code_simp

theorem failed_switch_mixed_state_witness:
  "toLowerCase ''Claude'' = ''claude''
   \<and> toLowerCase ''Claude'' \<noteq> currentProvider (llmService idle0)
   \<and> \<not> credentialPresent (svcKeys (llmService idle0)) (toLowerCase ''Claude'')
   \<and> switchLlmProvider ''Claude'' idle0 =
       (SwitchFailed ''Claude API key not configured'',
        idle0\<lparr>config := \<lparr>provider = ''claude'', apiKeys = keys0\<rparr>,
              llmService := svc0\<lparr>currentProvider := ''claude''\<rparr>\<rparr>)
   \<and> model (svc0\<lparr>currentProvider := ''claude''\<rparr>) = Some (ChatOpenAI ''sk-1'' ''gpt-5-chat-latest'' None)"
proof -
  have l: "toLowerCase ''Claude'' = ''claude''"
    by code_simp
  have h: "toLowerCase ''Claude'' \<noteq> currentProvider (llmService idle0)
   \<and> \<not> credentialPresent (svcKeys (llmService idle0)) (toLowerCase ''Claude'')"
    by code_simp
  have m: "model (svc0\<lparr>currentProvider := ''claude''\<rparr>) = Some (ChatOpenAI ''sk-1'' ''gpt-5-chat-latest'' None)"
    by (simp add: svc0_def)
  from failed_switch_mixed_state [of "''Claude''" idle0] h l switch_claude m
  show ?thesis
    by simp
qed

section \<open>The text-only provider\<close>

lemma textOnly_payload:
  "JSON_parse textOnlyResponse =
     Some (JObj [(''decision'', JStr ''Wait''), (''confidence'', JNum 50),
                 (''reason'', JStr ''Text-only analysis - image vision not supported''),
                 (''scenarios'', JArr []),
                 (''levels'', JObj [(''support'', JArr []), (''resistance'', JArr [])])])"
  by code_simp

text \<open>
  C9. With \<open>perplexity\<close> as the current provider and a model that answers, \<open>analyzeChart\<close>
  returns the same text for every image and every answer of the model; the model is
  asked once, with the text-only message, and its answer is dropped. That text is the
  object with decision \<open>Wait\<close>, confidence 50, the reason
  \<open>Text-only analysis - image vision not supported\<close>, no scenarios and empty support and
  resistance lists.
\<close>

theorem text_only_fixed_payload:
  "(currentProvider svc = ''perplexity'' \<and> model svc = Some m \<and> invoke w m TextMessage = Inr content \<longrightarrow>
      analyzeChart w svc img = (Inr textOnlyResponse, [ModelInvoked TextMessage]))
   \<and> JSON_parse textOnlyResponse =
     Some (JObj [(''decision'', JStr ''Wait''), (''confidence'', JNum 50),
                 (''reason'', JStr ''Text-only analysis - image vision not supported''),
                 (''scenarios'', JArr []),
                 (''levels'', JObj [(''support'', JArr []), (''resistance'', JArr [])])])"
  by (simp add: analyzeChart_def textOnly_payload)

theorem text_only_fixed_payload_witness:
  \<open>currentProvider pplx = ''perplexity''
   \<and> model pplx = Some (ChatOpenAI ''pplx-1'' ''sonar-pro'' (Some ''https://api.perplexity.ai''))
   \<and> invoke world0 (ChatOpenAI ''pplx-1'' ''sonar-pro'' (Some ''https://api.perplexity.ai'')) TextMessage
        = Inr ''{"decision":"Long"}''
   \<and> analyzeChart world0 pplx ''b64'' = (Inr textOnlyResponse, [ModelInvoked TextMessage])\<close>
proof -
  have h: \<open>currentProvider pplx = ''perplexity''
     \<and> model pplx = Some (ChatOpenAI ''pplx-1'' ''sonar-pro'' (Some ''https://api.perplexity.ai''))
     \<and> invoke world0 (ChatOpenAI ''pplx-1'' ''sonar-pro'' (Some ''https://api.perplexity.ai'')) TextMessage
          = Inr ''{"decision":"Long"}''\<close>
    by (simp add: pplx_def world0_def)
  with text_only_fixed_payload [where svc=pplx and w=world0 and img="''b64''"
      and m="ChatOpenAI ''pplx-1'' ''sonar-pro'' (Some ''https://api.perplexity.ai'')"
      and content=\<open>''{"decision":"Long"}''\<close>]
  show ?thesis
    by simp
qed

end
